theory Spec2Isabelle
  imports Main
begin

section \<open>Data model\<close>

text \<open>
  The development embeds \<^verbatim>\<open>coordinator.py\<close> (class Coordinator), the write
  commands of \<^verbatim>\<open>PhilipsGenericCoAPFanBase\<close> in \<^verbatim>\<open>philips.py\<close> and the
  session creation of \<^verbatim>\<open>async_setup_entry\<close> in \<^verbatim>\<open>__init__.py\<close>.

  A listener callback is identified by a number: Python compares the bound methods
  \<^verbatim>\<open>entity._handle_coordinator_update\<close> by identity of the entity. Tasks and client
  sessions are identified by their index in the table of the event loop, respectively
  of the sessions opened so far. A status dictionary maps protocol keys to values.
\<close>

type_synonym callback = nat
type_synonym task_id = nat
type_synonym client_id = nat

datatype pvalue = Str string | Num int

type_synonym device_status = "string \<rightharpoonup> pvalue"

text \<open>A status pattern (a Python dict literal of a capability table) keeps its keys in order.\<close>

type_synonym patch = "(string \<times> pvalue) list"

datatype error =
    ValueError
  | IndexError
  | AttributeError
  | ClientError
  | CallbackError callback
  | TimeoutError
  | ConfigEntryNotReady

datatype task_kind = Observe | Reconnect

text \<open>
  A task is alive while \<open>Running\<close> or \<open>AwaitingCreate\<close> (a reconnect task suspended in
  \<^verbatim>\<open>await CoAPClient.create(self.host)\<close>); \<open>Cancelled\<close> and \<open>Finished\<close> are final.
\<close>

datatype task_state = Running | AwaitingCreate | Cancelled | Finished

datatype client_state = Open | Closed

datatype timer_callback = ReconnectCallback

text \<open>
  Modelled from the spec: the class Timer of \<^verbatim>\<open>timer.py\<close>, which is not among the
  sources. The spec gives its attributes: the timeout duration, the callback to invoke on
  expiry, the running/stopped state and the auto-restart flag.
\<close>

record timer =
  timer_timeout :: nat
  on_expiry :: timer_callback
  running :: bool
  auto_restart :: bool

record coordinator =
  client :: "client_id option"
  host :: string
  status :: device_status
  listeners :: "callback list"
  task :: "task_id option"
  reconnect_task :: "task_id option"
  timeout :: nat
  timer_disconnected :: "timer option"

text \<open>
  The Coordinator lives in a host: \<open>tasks\<close> is the task table of the event loop,
  \<open>clients\<close> the sessions that \<^verbatim>\<open>CoAPClient.create\<close> has opened, \<open>notified\<close> the
  listener invocations so far, each with the snapshot \<^verbatim>\<open>coordinator.status\<close> the callback
  reads (what \<^verbatim>\<open>_handle_coordinator_update\<close> stores as latest status and renders),
  and \<open>sent\<close> the writes the Device Client has accepted.
\<close>

record system =
  coord :: coordinator
  tasks :: "(task_kind \<times> task_state) list"
  clients :: "client_state list"
  notified :: "(callback \<times> device_status) list"
  sent :: "patch list"

section \<open>The watchdog timer\<close>

text \<open>
  Modelled from the spec: the constructor of Timer (\<^verbatim>\<open>timer.py\<close> is missing). The timer
  is created with its timeout and callback; it counts down from construction only when
  \<open>autostart\<close> is set.
\<close>

definition Timer_init :: "nat \<Rightarrow> timer_callback \<Rightarrow> bool \<Rightarrow> timer" where
  "Timer_init t cb autostart =
     \<lparr>timer_timeout = t, on_expiry = cb, running = autostart, auto_restart = False\<rparr>"

text \<open>Modelled from the spec: \<^verbatim>\<open>Timer.cancel\<close> (missing) stops the countdown.\<close>

definition timer_cancel :: "timer \<Rightarrow> timer" where
  "timer_cancel tm = tm\<lparr>running := False\<rparr>"

text \<open>
  Modelled from the spec: \<^verbatim>\<open>Timer.reset\<close> (missing) restarts the countdown, whether or
  not the timer was running.
\<close>

definition timer_reset :: "timer \<Rightarrow> timer" where
  "timer_reset tm = tm\<lparr>running := True\<rparr>"

text \<open>
  Modelled from the spec: the expiry of the countdown of a Timer (missing). A running
  timer that is not reset before its timeout fires its callback once, and counts down
  again only when the auto-restart flag is set; a stopped timer fires nothing.
\<close>

definition timer_expire :: "timer \<Rightarrow> timer_callback list \<times> timer" where
  "timer_expire tm =
     (if running tm then ([on_expiry tm], tm\<lparr>running := auto_restart tm\<rparr>) else ([], tm))"

section \<open>The event loop and the Device Client\<close>

definition is_alive :: "task_state \<Rightarrow> bool" where
  "is_alive st = (st = Running \<or> st = AwaitingCreate)"

definition is_active_task :: "task_kind \<Rightarrow> system \<Rightarrow> task_id \<Rightarrow> bool" where
  "is_active_task k s t =
     (t < length (tasks s) \<and> fst (tasks s ! t) = k \<and> is_alive (snd (tasks s ! t)))"

definition active_ids :: "task_kind \<Rightarrow> system \<Rightarrow> task_id list" where
  "active_ids k s = filter (is_active_task k s) [0..<length (tasks s)]"

text \<open>\<^verbatim>\<open>asyncio.create_task\<close> and \<^verbatim>\<open>hass.async_create_task\<close>: a new live task.\<close>

definition create_task :: "task_kind \<Rightarrow> system \<Rightarrow> task_id \<times> system" where
  "create_task k s = (length (tasks s), s\<lparr>tasks := tasks s @ [(k, Running)]\<rparr>)"

definition set_task_state :: "task_id \<Rightarrow> task_state \<Rightarrow> system \<Rightarrow> system" where
  "set_task_state t st s =
     (if t < length (tasks s) then s\<lparr>tasks := (tasks s)[t := (fst (tasks s ! t), st)]\<rparr> else s)"

text \<open>\<^verbatim>\<open>Task.cancel()\<close>: a live task is cancelled, a task that is done stays as it is.\<close>

definition cancel_task :: "task_id \<Rightarrow> system \<Rightarrow> system" where
  "cancel_task t s =
     (if t < length (tasks s) \<and> is_alive (snd (tasks s ! t)) then set_task_state t Cancelled s
      else s)"

text \<open>
  \<^verbatim>\<open>await client.shutdown()\<close>: the environment decides with \<open>ok\<close> whether the call
  returns (the session is closed) or raises.
\<close>

definition client_shutdown :: "bool \<Rightarrow> client_id \<Rightarrow> system \<Rightarrow> error option \<times> system" where
  "client_shutdown ok c s =
     (if ok then (None, s\<lparr>clients := (clients s)[c := Closed]\<rparr>) else (Some ClientError, s))"

section \<open>The Coordinator\<close>

text \<open>
  \<^verbatim>\<open>Coordinator.__init__\<close>. The constant \<^verbatim>\<open>MISSED_PACKAGE_COUNT\<close> of the missing
  \<^verbatim>\<open>const.py\<close> is a parameter.
\<close>

definition Coordinator_init ::
  "nat \<Rightarrow> client_id option \<Rightarrow> string \<Rightarrow> device_status \<Rightarrow> coordinator" where
  "Coordinator_init MISSED_PACKAGE_COUNT cl h st =
     \<lparr>client = cl, host = h, status = st, listeners = [], task = None,
      reconnect_task = None, timeout = 60,
      timer_disconnected =
        Some ((Timer_init (60 * MISSED_PACKAGE_COUNT) ReconnectCallback False)
                \<lparr>auto_restart := True\<rparr>)\<rparr>"

text \<open>
  The host right after setup: one open session (number 0), no task yet, nothing notified
  and nothing written.
\<close>

definition fresh :: "nat \<Rightarrow> string \<Rightarrow> device_status \<Rightarrow> system" where
  "fresh MISSED_PACKAGE_COUNT h st =
     \<lparr>coord = Coordinator_init MISSED_PACKAGE_COUNT (Some 0) h st,
      tasks = [], clients = [Open], notified = [], sent = []\<rparr>"

text \<open>\<^verbatim>\<open>Coordinator.shutdown\<close>.\<close>

definition shutdown :: "bool \<Rightarrow> system \<Rightarrow> error option \<times> system" where
  "shutdown close_ok s =
     (let s1 = (case reconnect_task (coord s) of
                  Some t \<Rightarrow> cancel_task t s
                | None \<Rightarrow> s);
          s2 = (case timer_disconnected (coord s1) of
                  Some tm \<Rightarrow> s1\<lparr>coord := (coord s1)\<lparr>timer_disconnected := Some (timer_cancel tm)\<rparr>\<rparr>
                | None \<Rightarrow> s1)
      in case client (coord s2) of
           Some c \<Rightarrow> client_shutdown close_ok c s2
         | None \<Rightarrow> (None, s2))"

text \<open>\<^verbatim>\<open>Coordinator.reconnect\<close>: the previous reconnect task is superseded.\<close>

definition reconnect :: "system \<Rightarrow> system" where
  "reconnect s =
     (let s1 = (case reconnect_task (coord s) of
                  Some t \<Rightarrow> (cancel_task t s)\<lparr>coord := (coord s)\<lparr>reconnect_task := None\<rparr>\<rparr>
                | None \<Rightarrow> s);
          (t', s2) = create_task Reconnect s1
      in s2\<lparr>coord := (coord s2)\<lparr>reconnect_task := Some t'\<rparr>\<rparr>)"

text \<open>\<^verbatim>\<open>Coordinator._start_observing\<close>; the reset of the timer is commented out there.\<close>

definition start_observing :: "system \<Rightarrow> system" where
  "start_observing s =
     (let s1 = (case task (coord s) of
                  Some t \<Rightarrow> (cancel_task t s)\<lparr>coord := (coord s)\<lparr>task := None\<rparr>\<rparr>
                | None \<Rightarrow> s);
          (t', s2) = create_task Observe s1
      in s2\<lparr>coord := (coord s2)\<lparr>task := Some t'\<rparr>\<rparr>)"

text \<open>
  \<^verbatim>\<open>Coordinator._reconnect\<close>, the body of a reconnect task \<open>t\<close>, in the two pieces between
  its suspension points. A task that is not alive is never resumed.
  First piece: \<^verbatim>\<open>with contextlib.suppress(Exception): await self.client.shutdown()\<close>;
  a failure of the close (also the AttributeError of a missing client) is swallowed, and
  the task goes on to await the new session.
\<close>

definition reconnect_body_shutdown :: "task_id \<Rightarrow> bool \<Rightarrow> system \<Rightarrow> system" where
  "reconnect_body_shutdown t close_ok s =
     (if t < length (tasks s) \<and> tasks s ! t = (Reconnect, Running) then
        set_task_state t AwaitingCreate
          (case client (coord s) of
             Some c \<Rightarrow> snd (client_shutdown close_ok c s)
           | None \<Rightarrow> s)
      else s)"

text \<open>
  Second piece: \<^verbatim>\<open>self.client = await CoAPClient.create(self.host)\<close> and
  \<^verbatim>\<open>self._start_observing()\<close>. When the creation raises, the exception is logged and the
  task ends without a new client and without an observation task.
\<close>

definition reconnect_body_create :: "task_id \<Rightarrow> bool \<Rightarrow> system \<Rightarrow> system" where
  "reconnect_body_create t created s =
     (if t < length (tasks s) \<and> tasks s ! t = (Reconnect, AwaitingCreate) then
        (if created then
           set_task_state t Finished
             (start_observing
                (s\<lparr>clients := clients s @ [Open],
                   coord := (coord s)\<lparr>client := Some (length (clients s))\<rparr>\<rparr>))
         else set_task_state t Finished s)
      else s)"

text \<open>\<^verbatim>\<open>Coordinator.async_add_listener\<close>.\<close>

definition async_add_listener :: "callback \<Rightarrow> system \<Rightarrow> system" where
  "async_add_listener update_callback s =
     (let start = (listeners (coord s) = []);
          s1 = s\<lparr>coord := (coord s)\<lparr>listeners := listeners (coord s) @ [update_callback]\<rparr>\<rparr>
      in if start then start_observing s1 else s1)"

text \<open>
  \<^verbatim>\<open>Coordinator.async_remove_listener\<close>. \<^verbatim>\<open>list.remove\<close> deletes the first
  occurrence and raises ValueError when there is none, before anything is changed.
\<close>

definition async_remove_listener :: "callback \<Rightarrow> system \<Rightarrow> error option \<times> system" where
  "async_remove_listener update_callback s =
     (if update_callback \<notin> set (listeners (coord s)) then (Some ValueError, s)
      else
        let s1 = s\<lparr>coord := (coord s)\<lparr>listeners := remove1 update_callback (listeners (coord s))\<rparr>\<rparr>
        in case task (coord s1) of
             Some t \<Rightarrow>
               if listeners (coord s1) = []
               then (None, (cancel_task t s1)\<lparr>coord := (coord s1)\<lparr>task := None\<rparr>\<rparr>)
               else (None, s1)
           | None \<Rightarrow> (None, s1))"

text \<open>
  The fan-out \<^verbatim>\<open>for update_callback in self._listeners: update_callback()\<close>. The
  environment decides with \<open>raises\<close> which callbacks raise; a callback does not change the
  registry. There is no exception handler around the call: the first exception leaves the
  loop.
\<close>

fun notify_all :: "(callback \<Rightarrow> bool) \<Rightarrow> callback list \<Rightarrow> system \<Rightarrow> error option \<times> system" where
  "notify_all raises [] s = (None, s)"
| "notify_all raises (cb # cbs) s =
     (let s1 = s\<lparr>notified := notified s @ [(cb, status (coord s))]\<rparr>
      in if raises cb then (Some (CallbackError cb), s1) else notify_all raises cbs s1)"

text \<open>
  One round of the body of \<^verbatim>\<open>async for status in self.client.observe_status()\<close> in
  \<^verbatim>\<open>Coordinator._async_observe_status\<close>; the reset of the timer is commented out.
\<close>

definition observe_item :: "(callback \<Rightarrow> bool) \<Rightarrow> device_status \<Rightarrow> system \<Rightarrow> error option \<times> system" where
  "observe_item raises snap s =
     notify_all raises (listeners (coord s)) (s\<lparr>coord := (coord s)\<lparr>status := snap\<rparr>\<rparr>)"

text \<open>
  \<^verbatim>\<open>Coordinator._async_observe_status\<close> on the snapshots the stream has delivered so
  far: \<open>None\<close> when the loop awaits the next snapshot, the exception when it has ended.
\<close>

fun async_observe_status ::
  "(callback \<Rightarrow> bool) \<Rightarrow> device_status list \<Rightarrow> system \<Rightarrow> error option \<times> system" where
  "async_observe_status raises [] s = (None, s)"
| "async_observe_status raises (snap # rest) s =
     (case observe_item raises snap s of
        (Some e, s1) \<Rightarrow> (Some e, s1)
      | (None, s1) \<Rightarrow> async_observe_status raises rest s1)"

text \<open>
  The observation task \<open>t\<close> is resumed with the next snapshot of the stream. An exception
  of a callback leaves the coroutine, so the task is done; \<^verbatim>\<open>self._task\<close> still refers
  to it.
\<close>

definition observe_task_step ::
  "task_id \<Rightarrow> device_status \<Rightarrow> (callback \<Rightarrow> bool) \<Rightarrow> system \<Rightarrow> system" where
  "observe_task_step t snap raises s =
     (if t < length (tasks s) \<and> tasks s ! t = (Observe, Running) then
        (case observe_item raises snap s of
           (None, s1) \<Rightarrow> s1
         | (Some e, s1) \<Rightarrow> set_task_state t Finished s1)
      else s)"

text \<open>The stream of the observation task \<open>t\<close> ends: the \<^verbatim>\<open>async for\<close> is left.\<close>

definition observe_task_end :: "task_id \<Rightarrow> system \<Rightarrow> system" where
  "observe_task_end t s =
     (if t < length (tasks s) \<and> tasks s ! t = (Observe, Running) then set_task_state t Finished s
      else s)"

text \<open>The callback the Coordinator configures for its timer is \<^verbatim>\<open>self.reconnect\<close>.\<close>

fun run_timer_callback :: "timer_callback \<Rightarrow> system \<Rightarrow> system" where
  "run_timer_callback ReconnectCallback s = reconnect s"

text \<open>
  The countdown of \<^verbatim>\<open>self._timer_disconnected\<close> runs out: the callbacks that the timer
  fires are run on the Coordinator.
\<close>

definition timer_fires :: "system \<Rightarrow> system" where
  "timer_fires s =
     (case timer_disconnected (coord s) of
        None \<Rightarrow> s
      | Some tm \<Rightarrow>
          fold run_timer_callback (fst (timer_expire tm))
            (s\<lparr>coord := (coord s)\<lparr>timer_disconnected := Some (snd (timer_expire tm))\<rparr>\<rparr>))"

section \<open>What can happen to a Coordinator\<close>

datatype event =
    AddListener callback
  | RemoveListener callback
  | CallReconnect
  | CallShutdown bool
  | StreamItem task_id device_status "callback \<Rightarrow> bool"
  | StreamEnds task_id
  | ReconnectClosed task_id bool
  | ReconnectCreated task_id bool
  | TimerExpires

text \<open>
  A call that raises leaves the state it has reached to the next event, as the exception
  leaves the object to the caller.
\<close>

fun step :: "event \<Rightarrow> system \<Rightarrow> system" where
  "step (AddListener cb) s = async_add_listener cb s"
| "step (RemoveListener cb) s = snd (async_remove_listener cb s)"
| "step CallReconnect s = reconnect s"
| "step (CallShutdown close_ok) s = snd (shutdown close_ok s)"
| "step (StreamItem t snap raises) s = observe_task_step t snap raises s"
| "step (StreamEnds t) s = observe_task_end t s"
| "step (ReconnectClosed t close_ok) s = reconnect_body_shutdown t close_ok s"
| "step (ReconnectCreated t created) s = reconnect_body_create t created s"
| "step TimerExpires s = timer_fires s"

definition run :: "event list \<Rightarrow> system \<Rightarrow> system" where
  "run evs s = fold step evs s"

datatype listener_call = Add callback | Remove callback

fun call_event :: "listener_call \<Rightarrow> event" where
  "call_event (Add cb) = AddListener cb"
| "call_event (Remove cb) = RemoveListener cb"

text \<open>The observation loop of the Coordinator is active: its task field holds a live task.\<close>

definition observing :: "system \<Rightarrow> bool" where
  "observing s = (case task (coord s) of None \<Rightarrow> False | Some t \<Rightarrow> is_active_task Observe s t)"

section \<open>The write commands of the fan entity\<close>

text \<open>
  \<^verbatim>\<open>KEY_OSCILLATION\<close> maps one key to its on and off values; the on value is an int or a
  list whose first element is written.
\<close>

datatype switch_on = OnValue pvalue | OnList "pvalue list"

text \<open>
  The class attributes of a \<^verbatim>\<open>PhilipsGenericCoAPFanBase\<close> and the tables its constructor
  collects; \<open>entity\<close> is the callback \<^verbatim>\<open>self._handle_coordinator_update\<close>.
\<close>

record fan =
  entity :: callback
  available_preset_modes :: "(string \<times> patch) list"
  speeds :: "string list"
  available_speeds :: "(string \<times> patch) list"
  KEY_PHILIPS_POWER :: string
  STATE_POWER_ON :: pvalue
  STATE_POWER_OFF :: pvalue
  KEY_OSCILLATION :: "(string \<times> switch_on \<times> pvalue) option"

text \<open>
  What a write of the Device Client does, as the environment decides: the device accepts
  it and the call returns True, the device refuses it and the call returns False without
  raising, or the call raises.
\<close>

datatype write_outcome = WriteAccepted | WriteRefused | WriteRaises

text \<open>
  \<^verbatim>\<open>await self.coordinator.client.set_control_values(data=...)\<close>: \<open>dev\<close> gives the
  outcome of the write of this data. Every caller discards the value the client returns,
  so a refused write comes back to the caller as an accepted one does; only the device has
  not taken it, and it is not in \<open>sent\<close>.
\<close>

definition set_control_values ::
  "(patch \<Rightarrow> write_outcome) \<Rightarrow> patch \<Rightarrow> system \<Rightarrow> error option \<times> system" where
  "set_control_values dev data s =
     (case client (coord s) of
        None \<Rightarrow> (Some AttributeError, s)
      | Some c \<Rightarrow>
          (case dev data of
             WriteAccepted \<Rightarrow> (None, s\<lparr>sent := sent s @ [data]\<rparr>)
           | WriteRefused \<Rightarrow> (None, s)
           | WriteRaises \<Rightarrow> (Some ClientError, s)))"

definition set_control_value ::
  "(patch \<Rightarrow> write_outcome) \<Rightarrow> string \<Rightarrow> pvalue \<Rightarrow> system \<Rightarrow> error option \<times> system" where
  "set_control_value dev key v s = set_control_values dev [(key, v)] s"

text \<open>\<^verbatim>\<open>dict.update\<close> with a status pattern: the entries are stored in their order.\<close>

fun dict_update :: "device_status \<Rightarrow> patch \<Rightarrow> device_status" where
  "dict_update m [] = m"
| "dict_update m ((k, v) # kvs) = dict_update (m(k \<mapsto> v)) kvs"

text \<open>
  The entity writes into the dictionary that \<^verbatim>\<open>coordinator.status\<close> refers to
  (\<^verbatim>\<open>self._device_status\<close> is that reference).
\<close>

definition store_status :: "patch \<Rightarrow> system \<Rightarrow> system" where
  "store_status p s = s\<lparr>coord := (coord s)\<lparr>status := dict_update (status (coord s)) p\<rparr>\<rparr>"

text \<open>
  \<^verbatim>\<open>PhilipsEntity._handle_coordinator_update\<close> of the entity itself: it reads the status of
  the coordinator and renders it. No other listener of the registry is called.
\<close>

definition handle_coordinator_update :: "fan \<Rightarrow> system \<Rightarrow> system" where
  "handle_coordinator_update f s = s\<lparr>notified := notified s @ [(entity f, status (coord s))]\<rparr>"

text \<open>\<^verbatim>\<open>PhilipsGenericCoAPFanBase.async_turn_off\<close>.\<close>

definition async_turn_off :: "(patch \<Rightarrow> write_outcome) \<Rightarrow> fan \<Rightarrow> system \<Rightarrow> error option \<times> system" where
  "async_turn_off dev f s =
     (case set_control_value dev (KEY_PHILIPS_POWER f) (STATE_POWER_OFF f) s of
        (Some e, s1) \<Rightarrow> (Some e, s1)
      | (None, s1) \<Rightarrow>
          (None, handle_coordinator_update f
                   (store_status [(KEY_PHILIPS_POWER f, STATE_POWER_OFF f)] s1)))"

text \<open>
  \<^verbatim>\<open>PhilipsGenericCoAPFanBase.async_set_preset_mode\<close>. An unknown preset and an empty
  pattern are falsy: nothing is written.
\<close>

definition async_set_preset_mode ::
  "(patch \<Rightarrow> write_outcome) \<Rightarrow> fan \<Rightarrow> string \<Rightarrow> system \<Rightarrow> error option \<times> system" where
  "async_set_preset_mode dev f preset_mode s =
     (case map_of (available_preset_modes f) preset_mode of
        None \<Rightarrow> (None, s)
      | Some status_pattern \<Rightarrow>
          if status_pattern = [] then (None, s)
          else
            (case set_control_values dev status_pattern s of
               (Some e, s1) \<Rightarrow> (Some e, s1)
             | (None, s1) \<Rightarrow>
                 (None, handle_coordinator_update f (store_status status_pattern s1))))"

text \<open>
  \<^verbatim>\<open>PhilipsGenericCoAPFanBase.async_set_percentage\<close>. The function
  \<^verbatim>\<open>percentage_to_ordered_list_item\<close> belongs to the host and is the parameter
  \<open>to_item\<close>. After the write the handler is called, and the status is not stored.
\<close>

definition async_set_percentage ::
  "(patch \<Rightarrow> write_outcome) \<Rightarrow> (string list \<Rightarrow> int \<Rightarrow> error + string) \<Rightarrow> fan \<Rightarrow> int \<Rightarrow> system
     \<Rightarrow> error option \<times> system" where
  "async_set_percentage dev to_item f percentage s =
     (if percentage = 0 then async_turn_off dev f s
      else
        (case to_item (speeds f) percentage of
           Inl e \<Rightarrow> (Some e, s)
         | Inr speed \<Rightarrow>
             (case map_of (available_speeds f) speed of
                None \<Rightarrow> (None, s)
              | Some status_pattern \<Rightarrow>
                  if status_pattern = [] then (None, s)
                  else
                    (case set_control_values dev status_pattern s of
                       (Some e, s1) \<Rightarrow> (Some e, s1)
                     | (None, s1) \<Rightarrow> (None, handle_coordinator_update f s1)))))"

text \<open>
  \<^verbatim>\<open>PhilipsGenericCoAPFanBase.async_turn_on\<close>. A preset mode that is None or empty and a
  percentage that is None or 0 are falsy.
\<close>

definition async_turn_on ::
  "(patch \<Rightarrow> write_outcome) \<Rightarrow> (string list \<Rightarrow> int \<Rightarrow> error + string) \<Rightarrow> fan \<Rightarrow> int option
     \<Rightarrow> string option \<Rightarrow> system \<Rightarrow> error option \<times> system" where
  "async_turn_on dev to_item f percentage preset_mode s =
     (if preset_mode \<noteq> None \<and> preset_mode \<noteq> Some [] then
        async_set_preset_mode dev f (the preset_mode) s
      else if percentage \<noteq> None \<and> percentage \<noteq> Some 0 then
        async_set_percentage dev to_item f (the percentage) s
      else
        (case set_control_value dev (KEY_PHILIPS_POWER f) (STATE_POWER_ON f) s of
           (Some e, s1) \<Rightarrow> (Some e, s1)
         | (None, s1) \<Rightarrow>
             (None, handle_coordinator_update f
                      (store_status [(KEY_PHILIPS_POWER f, STATE_POWER_ON f)] s1))))"

text \<open>
  \<^verbatim>\<open>on_value = on if isinstance(on, int) else on[0]\<close> in \<^verbatim>\<open>async_oscillate\<close>:
  \<open>None\<close> is the IndexError of an empty list.
\<close>

fun on_value :: "switch_on \<Rightarrow> pvalue option" where
  "on_value (OnValue v) = Some v"
| "on_value (OnList []) = None"
| "on_value (OnList (v # vs)) = Some v"

text \<open>
  \<^verbatim>\<open>PhilipsGenericCoAPFanBase.async_oscillate\<close>. The IndexError of \<^verbatim>\<open>on[0]\<close> is raised
  before anything is written.
\<close>

definition async_oscillate ::
  "(patch \<Rightarrow> write_outcome) \<Rightarrow> fan \<Rightarrow> bool \<Rightarrow> system \<Rightarrow> error option \<times> system" where
  "async_oscillate dev f oscillating s =
     (case KEY_OSCILLATION f of
        None \<Rightarrow> (None, s)
      | Some (key, on, off) \<Rightarrow>
          (case on_value on of
             None \<Rightarrow> (Some IndexError, s)
           | Some v \<Rightarrow>
               (case set_control_value dev key (if oscillating then v else off) s of
                  (Some e, s1) \<Rightarrow> (Some e, s1)
                | (None, s1) \<Rightarrow>
                    (None, handle_coordinator_update f
                             (store_status [(key, if oscillating then v else off)] s1)))))"



section \<open>Setting up the integration\<close>

text \<open>
  What one call of \<^verbatim>\<open>CoAPClient.create(host)\<close> does, as the environment decides: it
  returns a session after some time units, raises an exception of its own after some time
  units, or never finishes.
\<close>

datatype create_outcome = Created nat | CreateRaises nat error | Hangs

text \<open>
  \<^verbatim>\<open>asyncio.wait_for(awaitable, timeout)\<close>: the awaitable is cancelled and TimeoutError
  raised when it has not finished before the timeout; an exception of the awaitable
  passes through.
\<close>

definition wait_for :: "nat \<Rightarrow> create_outcome \<Rightarrow> error + unit" where
  "wait_for limit outcome =
     (case outcome of
        Created d \<Rightarrow> if d < limit then Inr () else Inl TimeoutError
      | CreateRaises d e \<Rightarrow> if d < limit then Inl e else Inl TimeoutError
      | Hangs \<Rightarrow> Inl TimeoutError)"

record config_entry =
  conf_host :: string
  conf_model :: string
  conf_name :: string
  conf_device_id :: string
  conf_status :: device_status

text \<open>
  \<^verbatim>\<open>async_setup_entry\<close> of \<^verbatim>\<open>__init__.py\<close>, up to the construction of the Coordinator.
  \<open>attempts\<close> is what the successive calls of \<^verbatim>\<open>CoAPClient.create\<close> would do; the
  function returns the attempts it has not used. Only TimeoutError, of the timeout or of
  the creation itself, is turned into ConfigEntryNotReady; any other exception of the
  creation reaches the caller as it is.
\<close>

definition async_setup_entry ::
  "nat \<Rightarrow> config_entry \<Rightarrow> create_outcome list \<Rightarrow> (error + system) \<times> create_outcome list" where
  "async_setup_entry MISSED_PACKAGE_COUNT entry attempts =
     (let outcome = (case attempts of [] \<Rightarrow> Hangs | a # rest \<Rightarrow> a)
      in (case wait_for 25 outcome of
            Inl e \<Rightarrow> if e = TimeoutError then Inl ConfigEntryNotReady else Inl e
          | Inr u \<Rightarrow> Inr (fresh MISSED_PACKAGE_COUNT (conf_host entry) (conf_status entry)),
          tl attempts))"

section \<open>Invariants of the reachable states\<close>

text \<open>
  Every live observation task is the one in \<^verbatim>\<open>self._task\<close>, every live reconnect task
  the one in \<^verbatim>\<open>self._reconnect_task\<close>.
\<close>

definition single_tasks :: "system \<Rightarrow> bool" where
  "single_tasks s =
     ((\<forall>t. is_active_task Observe s t \<longrightarrow> task (coord s) = Some t) \<and>
      (\<forall>t. is_active_task Reconnect s t \<longrightarrow> reconnect_task (coord s) = Some t))"

text \<open>The kind of the task with a given number, when the table has it.\<close>

definition kind_of :: "system \<Rightarrow> task_id \<Rightarrow> task_kind option" where
  "kind_of s t = (if t < length (tasks s) then Some (fst (tasks s ! t)) else None)"

text \<open>
  The task fields of the Coordinator refer to tasks of the table, of the right kind.
\<close>

definition fields_in_table :: "system \<Rightarrow> bool" where
  "fields_in_table s =
     ((\<forall>t. task (coord s) = Some t \<longrightarrow> kind_of s t = Some Observe) \<and>
      (\<forall>t. reconnect_task (coord s) = Some t \<longrightarrow> kind_of s t = Some Reconnect))"

text \<open>The observation loop follows the registry: no task without listeners, a live one with.\<close>

definition loop_follows_registry :: "system \<Rightarrow> bool" where
  "loop_follows_registry s =
     ((listeners (coord s) = [] \<longrightarrow> task (coord s) = None) \<and>
      (listeners (coord s) \<noteq> [] \<longrightarrow> observing s))"

text \<open>The timer of the Coordinator exists and is not counting down.\<close>

definition never_armed :: "system \<Rightarrow> bool" where
  "never_armed s = (map_option running (timer_disconnected (coord s)) = Some False)"

section \<open>Example inputs\<close>

definition example_status :: device_status where
  "example_status = [''pwr'' \<mapsto> Str ''1'', ''mode'' \<mapsto> Str ''P'']"

definition example_snapshot :: device_status where
  "example_snapshot = [''pwr'' \<mapsto> Str ''1'', ''mode'' \<mapsto> Str ''A'']"

definition two_listeners :: system where
  "two_listeners =
     async_add_listener 2 (async_add_listener 1 (fresh 3 ''purifier'' example_status))"

definition first_raises :: "callback \<Rightarrow> bool" where
  "first_raises cb = (cb = 1)"

definition none_raises :: "callback \<Rightarrow> bool" where
  "none_raises cb = False"

definition device_accepts :: "patch \<Rightarrow> write_outcome" where
  "device_accepts data = WriteAccepted"



definition three_listeners :: system where
  "three_listeners = async_add_listener 3 two_listeners"

definition second_raises :: "callback \<Rightarrow> bool" where
  "second_raises cb = (cb = 2)"

text \<open>A fan whose oscillation is switched on by the first value of a list.\<close>

definition swing_fan :: fan where
  "swing_fan =
     \<lparr>entity = 2,
      available_preset_modes = [],
      speeds = [],
      available_speeds = [],
      KEY_PHILIPS_POWER = ''D03102'',
      STATE_POWER_ON = Num 1,
      STATE_POWER_OFF = Num 0,
      KEY_OSCILLATION = Some (''D0320F'', OnList [Num 17920, Num 17222], Num 0)\<rparr>"

definition example_to_item :: "string list \<Rightarrow> int \<Rightarrow> error + string" where
  "example_to_item items percentage = (case items of [] \<Rightarrow> Inl ValueError | x # xs \<Rightarrow> Inr x)"

definition example_fan :: fan where
  "example_fan =
     \<lparr>entity = 1,
      available_preset_modes = [(''auto'', [(''mode'', Str ''P'')]),
                                (''allergen'', [(''mode'', Str ''A'')])],
      speeds = [''night''],
      available_speeds = [(''night'', [(''mode'', Str ''N'')])],
      KEY_PHILIPS_POWER = ''pwr'',
      STATE_POWER_ON = Str ''1'',
      STATE_POWER_OFF = Str ''0'',
      KEY_OSCILLATION = None\<rparr>"

definition two_reconnects :: "event list" where
  "two_reconnects = [AddListener 1, CallReconnect]"

definition one_listener :: system where
  "one_listener = async_add_listener 1 (fresh 3 ''purifier'' example_status)"

definition example_entry :: config_entry where
  "example_entry =
     \<lparr>conf_host = ''purifier'', conf_model = ''AC2729'', conf_name = ''bedroom'',
      conf_device_id = ''d1'', conf_status = example_status\<rparr>"

text \<open>The two listeners again, with the timer armed as a reset would arm it.\<close>

definition armed_example :: system where
  "armed_example =
     two_listeners\<lparr>coord := (coord two_listeners)
        \<lparr>timer_disconnected := map_option timer_reset (timer_disconnected (coord two_listeners))\<rparr>\<rparr>"

section \<open>Evaluation of the examples\<close>

lemmas model_defs =
  fresh_def Coordinator_init_def Timer_init_def async_add_listener_def start_observing_def
  create_task_def cancel_task_def set_task_state_def is_alive_def is_active_task_def
  reconnect_def shutdown_def client_shutdown_def timer_cancel_def async_remove_listener_def
  observe_item_def

lemma two_listeners_eval:
  "listeners (coord two_listeners) = [1, 2] \<and> task (coord two_listeners) = Some 0
   \<and> tasks two_listeners = [(Observe, Running)]"
  by (simp add: two_listeners_def model_defs)

section \<open>Tasks: what each operation does to the task table\<close>

lemma active_coord_upd [simp]: "is_active_task k (s\<lparr>coord := c\<rparr>) t = is_active_task k s t"
  by (simp add: is_active_task_def)

lemma active_notified_upd [simp]: "is_active_task k (s\<lparr>notified := n\<rparr>) t = is_active_task k s t"
  by (simp add: is_active_task_def)

lemma active_clients_upd [simp]: "is_active_task k (s\<lparr>clients := n\<rparr>) t = is_active_task k s t"
  by (simp add: is_active_task_def)

lemma set_task_state_frame [simp]:
  "coord (set_task_state t st s) = coord s"
  "clients (set_task_state t st s) = clients s"
  "notified (set_task_state t st s) = notified s"
  "sent (set_task_state t st s) = sent s"
  "length (tasks (set_task_state t st s)) = length (tasks s)"
  by (simp_all add: set_task_state_def)

lemma cancel_task_frame [simp]:
  "coord (cancel_task t s) = coord s"
  "clients (cancel_task t s) = clients s"
  "notified (cancel_task t s) = notified s"
  "sent (cancel_task t s) = sent s"
  "length (tasks (cancel_task t s)) = length (tasks s)"
  by (simp_all add: cancel_task_def)

lemma active_set_task_state:
  "is_active_task k (set_task_state t st s) t' =
     (if t' = t then t < length (tasks s) \<and> fst (tasks s ! t) = k \<and> is_alive st
      else is_active_task k s t')"
  by (auto simp: is_active_task_def set_task_state_def)

lemma active_cancel_task:
  "is_active_task k (cancel_task t s) t' = (is_active_task k s t' \<and> t' \<noteq> t)"
proof (cases "t < length (tasks s) \<and> is_alive (snd (tasks s ! t))")
  case True
  then have "cancel_task t s = set_task_state t Cancelled s" by (simp add: cancel_task_def)
  then show ?thesis by (simp add: active_set_task_state is_alive_def)
next
  case False
  then have "cancel_task t s = s" by (auto simp: cancel_task_def)
  moreover have "\<not> is_active_task k s t" using False by (simp add: is_active_task_def)
  ultimately show ?thesis by auto
qed

lemma active_create_task:
  "is_active_task k (snd (create_task k' s)) t' =
     (is_active_task k s t' \<or> (t' = length (tasks s) \<and> k = k'))"
  by (auto simp: create_task_def is_active_task_def is_alive_def nth_append)

lemma create_task_frame [simp]:
  "coord (snd (create_task k s)) = coord s"
  "fst (create_task k s) = length (tasks s)"
  "clients (snd (create_task k s)) = clients s"
  "notified (snd (create_task k s)) = notified s"
  by (simp_all add: create_task_def)

lemma active_bound: "is_active_task k s t \<Longrightarrow> t < length (tasks s)"
  by (simp add: is_active_task_def)

lemma start_observing_coord:
  "coord (start_observing s) = (coord s)\<lparr>task := Some (length (tasks s))\<rparr>"
  by (simp add: start_observing_def split_beta Let_def split: option.split)

lemma start_observing_active:
  "is_active_task k (start_observing s) t =
     ((is_active_task k s t \<and> task (coord s) \<noteq> Some t) \<or> (t = length (tasks s) \<and> k = Observe))"
  by (auto simp: start_observing_def split_beta Let_def active_create_task active_cancel_task
      split: option.split)

lemma reconnect_coord:
  "coord (reconnect s) = (coord s)\<lparr>reconnect_task := Some (length (tasks s))\<rparr>"
  by (simp add: reconnect_def split_beta Let_def split: option.split)

lemma reconnect_active:
  "is_active_task k (reconnect s) t =
     ((is_active_task k s t \<and> reconnect_task (coord s) \<noteq> Some t) \<or> (t = length (tasks s) \<and> k = Reconnect))"
  by (auto simp: reconnect_def split_beta Let_def active_create_task active_cancel_task
      split: option.split)

lemma single_start_observing: "single_tasks s \<Longrightarrow> single_tasks (start_observing s)"
  by (auto simp: single_tasks_def start_observing_active start_observing_coord dest: active_bound)

lemma single_reconnect: "single_tasks s \<Longrightarrow> single_tasks (reconnect s)"
  by (auto simp: single_tasks_def reconnect_active reconnect_coord dest: active_bound)

lemma single_add: "single_tasks s \<Longrightarrow> single_tasks (async_add_listener cb s)"
proof -
  assume a: "single_tasks s"
  let ?s1 = "s\<lparr>coord := (coord s)\<lparr>listeners := listeners (coord s) @ [cb]\<rparr>\<rparr>"
  have b: "single_tasks ?s1" using a by (simp add: single_tasks_def)
  then have "single_tasks (start_observing ?s1)" by (rule single_start_observing)
  with b show ?thesis unfolding async_add_listener_def Let_def
    by (simp only: split: if_split) simp
qed

lemma remove_coord:
  "coord (snd (async_remove_listener cb s)) =
     (if cb \<notin> set (listeners (coord s)) then coord s
      else (coord s)\<lparr>listeners := remove1 cb (listeners (coord s)),
                      task := (if remove1 cb (listeners (coord s)) = [] then None
                               else task (coord s))\<rparr>)"
  by (cases "task (coord s)") (simp_all add: async_remove_listener_def Let_def)

lemma remove_active:
  "is_active_task k (snd (async_remove_listener cb s)) t =
     (is_active_task k s t \<and>
      \<not> (cb \<in> set (listeners (coord s)) \<and> remove1 cb (listeners (coord s)) = []
         \<and> task (coord s) = Some t))"
  by (cases "task (coord s)")
     (auto simp: async_remove_listener_def Let_def active_cancel_task)

lemma single_remove: "single_tasks s \<Longrightarrow> single_tasks (snd (async_remove_listener cb s))"
  by (simp add: single_tasks_def remove_active remove_coord)

lemma client_shutdown_frame [simp]:
  "coord (snd (client_shutdown ok c s)) = coord s"
  "tasks (snd (client_shutdown ok c s)) = tasks s"
  "notified (snd (client_shutdown ok c s)) = notified s"
  by (simp_all add: client_shutdown_def)

lemma active_client_shutdown [simp]:
  "is_active_task k (snd (client_shutdown ok c s)) t = is_active_task k s t"
  by (simp add: is_active_task_def)

lemma shutdown_coord:
  "coord (snd (shutdown ok s)) =
     (coord s)\<lparr>timer_disconnected := map_option timer_cancel (timer_disconnected (coord s))\<rparr>"
  by (cases "reconnect_task (coord s)"; cases "timer_disconnected (coord s)"; cases "client (coord s)")
     (simp_all add: shutdown_def Let_def)

lemma shutdown_tasks:
  "tasks (snd (shutdown ok s)) =
     (case reconnect_task (coord s) of None \<Rightarrow> tasks s | Some t \<Rightarrow> tasks (cancel_task t s))"
  by (cases "reconnect_task (coord s)"; cases "timer_disconnected (coord s)"; cases "client (coord s)")
     (simp_all add: shutdown_def Let_def)

lemma active_tasks_eq: "tasks s' = tasks s \<Longrightarrow> is_active_task k s' t = is_active_task k s t"
  by (simp add: is_active_task_def)

lemma shutdown_active:
  "is_active_task k (snd (shutdown ok s)) t =
     (is_active_task k s t \<and> reconnect_task (coord s) \<noteq> Some t)"
proof (cases "reconnect_task (coord s)")
  case None
  then have "tasks (snd (shutdown ok s)) = tasks s" by (simp add: shutdown_tasks)
  then show ?thesis using None by (simp add: is_active_task_def)
next
  case (Some r)
  then have "tasks (snd (shutdown ok s)) = tasks (cancel_task r s)" by (simp add: shutdown_tasks)
  then have "is_active_task k (snd (shutdown ok s)) t = is_active_task k (cancel_task r s) t"
    by (rule active_tasks_eq)
  then show ?thesis using Some by (auto simp: active_cancel_task)
qed

lemma single_shutdown: "single_tasks s \<Longrightarrow> single_tasks (snd (shutdown ok s))"
  by (simp add: single_tasks_def shutdown_active shutdown_coord)

lemma notify_all_frame [simp]:
  "coord (snd (notify_all raises cbs s)) = coord s"
  "tasks (snd (notify_all raises cbs s)) = tasks s"
  "clients (snd (notify_all raises cbs s)) = clients s"
  "sent (snd (notify_all raises cbs s)) = sent s"
  by (induction cbs arbitrary: s) (simp_all add: Let_def)

lemma observe_item_frame [simp]:
  "coord (snd (observe_item raises snap s)) = (coord s)\<lparr>status := snap\<rparr>"
  "tasks (snd (observe_item raises snap s)) = tasks s"
  "clients (snd (observe_item raises snap s)) = clients s"
  "sent (snd (observe_item raises snap s)) = sent s"
  by (simp_all add: observe_item_def)

lemma active_observe_item [simp]:
  "is_active_task k (snd (observe_item raises snap s)) t = is_active_task k s t"
  by (simp add: is_active_task_def)

lemma single_set_task_state:
  "single_tasks s \<Longrightarrow> \<not> is_alive st \<Longrightarrow> single_tasks (set_task_state t st s)"
  by (simp add: single_tasks_def active_set_task_state)

lemma single_coord_eq:
  "single_tasks s \<Longrightarrow> tasks s' = tasks s \<Longrightarrow> task (coord s') = task (coord s)
   \<Longrightarrow> reconnect_task (coord s') = reconnect_task (coord s) \<Longrightarrow> single_tasks s'"
  by (simp add: single_tasks_def is_active_task_def)

lemma single_observe_item: "single_tasks s \<Longrightarrow> single_tasks (snd (observe_item raises snap s))"
  by (erule single_coord_eq) simp_all

lemma single_observe_step: "single_tasks s \<Longrightarrow> single_tasks (observe_task_step t snap raises s)"
proof -
  assume a: "single_tasks s"
  obtain e s1 where r: "observe_item raises snap s = (e, s1)" by force
  have s1: "single_tasks s1" using single_observe_item [OF a, of raises snap] r by simp
  then have "single_tasks (set_task_state t Finished s1)"
    by (rule single_set_task_state) (simp add: is_alive_def)
  with a s1 show ?thesis
    by (cases e) (simp_all add: observe_task_step_def r)
qed

lemma single_observe_end: "single_tasks s \<Longrightarrow> single_tasks (observe_task_end t s)"
  by (simp add: observe_task_end_def single_set_task_state is_alive_def)

lemma single_reconnect_shutdown: "single_tasks s \<Longrightarrow> single_tasks (reconnect_body_shutdown t ok s)"
proof -
  assume a: "single_tasks s"
  let ?s1 = "case client (coord s) of Some c \<Rightarrow> snd (client_shutdown ok c s) | None \<Rightarrow> s"
  have b: "single_tasks ?s1"
    by (rule single_coord_eq [OF a]) (simp_all split: option.split)
  have t1: "tasks ?s1 = tasks s" by (simp split: option.split)
  have c1: "coord ?s1 = coord s" by (simp split: option.split)
  have "single_tasks (set_task_state t AwaitingCreate ?s1)"
    if "t < length (tasks s)" "tasks s ! t = (Reconnect, Running)"
    unfolding single_tasks_def
  proof (intro conjI allI impI)
    fix u assume "is_active_task Observe (set_task_state t AwaitingCreate ?s1) u"
    then have "is_active_task Observe ?s1 u"
      using that by (simp add: active_set_task_state t1 split: if_splits)
    then show "task (coord (set_task_state t AwaitingCreate ?s1)) = Some u"
      using b by (simp add: single_tasks_def)
  next
    fix u assume h: "is_active_task Reconnect (set_task_state t AwaitingCreate ?s1) u"
    have "is_active_task Reconnect ?s1 t"
      using that by (simp add: is_active_task_def t1 is_alive_def)
    then have "is_active_task Reconnect ?s1 u"
      using h by (simp add: active_set_task_state split: if_splits)
    then show "reconnect_task (coord (set_task_state t AwaitingCreate ?s1)) = Some u"
      using b by (simp add: single_tasks_def)
  qed
  with a show ?thesis by (simp add: reconnect_body_shutdown_def)
qed

lemma single_reconnect_create: "single_tasks s \<Longrightarrow> single_tasks (reconnect_body_create t ok s)"
proof -
  assume a: "single_tasks s"
  let ?s1 = "s\<lparr>clients := clients s @ [Open], coord := (coord s)\<lparr>client := Some (length (clients s))\<rparr>\<rparr>"
  have "single_tasks ?s1" by (rule single_coord_eq [OF a]) simp_all
  then have "single_tasks (start_observing ?s1)" by (rule single_start_observing)
  then have b: "single_tasks (set_task_state t Finished (start_observing ?s1))"
    by (rule single_set_task_state) (simp add: is_alive_def)
  have c: "single_tasks (set_task_state t Finished s)"
    using a by (rule single_set_task_state) (simp add: is_alive_def)
  show ?thesis unfolding reconnect_body_create_def
    using a b c by (simp only: split: if_split) simp
qed

lemma single_timer_fires: "single_tasks s \<Longrightarrow> single_tasks (timer_fires s)"
proof (cases "timer_disconnected (coord s)")
  case None
  then show "single_tasks s \<Longrightarrow> ?thesis" by (simp add: timer_fires_def)
next
  case (Some tm)
  assume a: "single_tasks s"
  let ?s1 = "s\<lparr>coord := (coord s)\<lparr>timer_disconnected := Some (snd (timer_expire tm))\<rparr>\<rparr>"
  have b: "single_tasks ?s1" by (rule single_coord_eq [OF a]) simp_all
  have c: "single_tasks (reconnect ?s1)" using b by (rule single_reconnect)
  have "fst (timer_expire tm) = [] \<or> fst (timer_expire tm) = [ReconnectCallback]"
    by (cases "on_expiry tm") (simp add: timer_expire_def)
  then show ?thesis
  proof
    assume "fst (timer_expire tm) = []"
    then show ?thesis using Some b by (simp add: timer_fires_def)
  next
    assume "fst (timer_expire tm) = [ReconnectCallback]"
    then show ?thesis using Some c by (simp add: timer_fires_def)
  qed
qed

lemma single_step: "single_tasks s \<Longrightarrow> single_tasks (step e s)"
  by (cases e)
     (simp_all add: single_add single_remove single_reconnect single_shutdown single_observe_step
        single_observe_end single_reconnect_shutdown single_reconnect_create single_timer_fires)

lemma single_run: "single_tasks s \<Longrightarrow> single_tasks (run evs s)"
  unfolding run_def by (induction evs arbitrary: s) (simp_all add: single_step)

lemma single_fresh: "single_tasks (fresh m h st)"
  by (simp add: single_tasks_def fresh_def is_active_task_def)

lemma filter_at_most_one:
  assumes "distinct xs" and "\<And>t. t \<in> set xs \<Longrightarrow> P t \<Longrightarrow> x = Some t"
  shows "length (filter P xs) \<le> 1"
proof -
  have "distinct (filter P xs)" using assms(1) by simp
  then have "length (filter P xs) = card (set (filter P xs))" by (rule distinct_card [symmetric])
  also have "\<dots> \<le> card (set_option x)"
    by (rule card_mono) (use assms(2) in \<open>auto\<close>)
  also have "\<dots> \<le> 1" by (cases x) simp_all
  finally show ?thesis .
qed

lemma single_active_ids:
  assumes "single_tasks s"
  shows "length (active_ids Observe s) \<le> 1" and "length (active_ids Reconnect s) \<le> 1"
proof -
  show "length (active_ids Observe s) \<le> 1"
    unfolding active_ids_def
    by (rule filter_at_most_one [where x = "task (coord s)"])
       (use assms in \<open>simp_all add: single_tasks_def\<close>)
  show "length (active_ids Reconnect s) \<le> 1"
    unfolding active_ids_def
    by (rule filter_at_most_one [where x = "reconnect_task (coord s)"])
       (use assms in \<open>simp_all add: single_tasks_def\<close>)
qed

lemma set_active_ids: "set (active_ids k s) = {t. is_active_task k s t}"
  by (auto simp: active_ids_def is_active_task_def)

lemma active_ids_empty: "(active_ids k s = []) = (\<forall>t. \<not> is_active_task k s t)"
  using set_active_ids [of k s] by (metis empty_Collect_eq set_empty)

lemma only_active_id:
  assumes "length (active_ids k s) \<le> 1" and "is_active_task k s t"
  shows "active_ids k s = [t]"
proof -
  have "t \<in> set (active_ids k s)" using assms(2) by (simp add: set_active_ids)
  with assms(1) show ?thesis by (cases "active_ids k s") auto
qed

lemma kind_of_tasks_eq: "tasks s' = tasks s \<Longrightarrow> kind_of s' = kind_of s"
  by (simp add: kind_of_def fun_eq_iff)

lemma kind_of_upd [simp]:
  "kind_of (s\<lparr>coord := c\<rparr>) = kind_of s"
  "kind_of (s\<lparr>notified := n\<rparr>) = kind_of s"
  "kind_of (s\<lparr>clients := cs\<rparr>) = kind_of s"
  by (simp_all add: kind_of_def fun_eq_iff)

lemma kind_of_next [simp]: "kind_of s (length (tasks s)) = None"
  by (simp add: kind_of_def)

lemma kind_of_set_task_state [simp]: "kind_of (set_task_state t st s) = kind_of s"
  by (auto simp: kind_of_def set_task_state_def fun_eq_iff nth_list_update)

lemma kind_of_cancel_task [simp]: "kind_of (cancel_task t s) = kind_of s"
  by (simp add: cancel_task_def)

lemma kind_of_create_task [simp]:
  "kind_of (snd (create_task k s)) t = (if t = length (tasks s) then Some k else kind_of s t)"
  by (auto simp: kind_of_def create_task_def nth_append)

lemma start_observing_length: "length (tasks (start_observing s)) = Suc (length (tasks s))"
  by (simp add: start_observing_def split_beta Let_def create_task_def split: option.split)

lemma reconnect_length: "length (tasks (reconnect s)) = Suc (length (tasks s))"
  by (simp add: reconnect_def split_beta Let_def create_task_def split: option.split)

lemma kind_of_start_observing:
  "kind_of (start_observing s) t = (if t = length (tasks s) then Some Observe else kind_of s t)"
  by (cases "task (coord s)") (simp_all add: start_observing_def split_beta Let_def)

lemma kind_of_reconnect:
  "kind_of (reconnect s) t = (if t = length (tasks s) then Some Reconnect else kind_of s t)"
  by (cases "reconnect_task (coord s)") (simp_all add: reconnect_def split_beta Let_def)

lemma kind_of_in_table: "kind_of s t = Some k \<Longrightarrow> t \<noteq> length (tasks s)"
  by (auto simp: kind_of_def)

lemma fields_start_observing: "fields_in_table s \<Longrightarrow> fields_in_table (start_observing s)"
  by (auto simp: fields_in_table_def start_observing_coord kind_of_start_observing
      dest: kind_of_in_table)

lemma fields_reconnect: "fields_in_table s \<Longrightarrow> fields_in_table (reconnect s)"
  by (auto simp: fields_in_table_def reconnect_coord kind_of_reconnect dest: kind_of_in_table)

lemma fields_eq:
  "fields_in_table s \<Longrightarrow> kind_of s' = kind_of s \<Longrightarrow> task (coord s') = task (coord s)
   \<Longrightarrow> reconnect_task (coord s') = reconnect_task (coord s) \<Longrightarrow> fields_in_table s'"
  by (simp add: fields_in_table_def)

lemma fields_add: "fields_in_table s \<Longrightarrow> fields_in_table (async_add_listener cb s)"
proof -
  assume a: "fields_in_table s"
  let ?s1 = "s\<lparr>coord := (coord s)\<lparr>listeners := listeners (coord s) @ [cb]\<rparr>\<rparr>"
  have b: "fields_in_table ?s1" by (rule fields_eq [OF a]) simp_all
  then have "fields_in_table (start_observing ?s1)" by (rule fields_start_observing)
  with b show ?thesis unfolding async_add_listener_def Let_def
    by (simp only: split: if_split) simp
qed

lemma kind_of_remove: "kind_of (snd (async_remove_listener cb s)) = kind_of s"
  by (cases "task (coord s)") (simp_all add: async_remove_listener_def Let_def)

lemma fields_remove: "fields_in_table s \<Longrightarrow> fields_in_table (snd (async_remove_listener cb s))"
  by (simp add: fields_in_table_def kind_of_remove remove_coord)

lemma kind_of_shutdown: "kind_of (snd (shutdown ok s)) = kind_of s"
proof (cases "reconnect_task (coord s)")
  case None
  then have "tasks (snd (shutdown ok s)) = tasks s" by (simp add: shutdown_tasks)
  then show ?thesis by (rule kind_of_tasks_eq)
next
  case (Some r)
  then have "tasks (snd (shutdown ok s)) = tasks (cancel_task r s)" by (simp add: shutdown_tasks)
  then have "kind_of (snd (shutdown ok s)) = kind_of (cancel_task r s)" by (rule kind_of_tasks_eq)
  then show ?thesis by simp
qed

lemma fields_shutdown: "fields_in_table s \<Longrightarrow> fields_in_table (snd (shutdown ok s))"
  by (simp add: fields_in_table_def kind_of_shutdown shutdown_coord)

lemma fields_set_task_state: "fields_in_table s \<Longrightarrow> fields_in_table (set_task_state t st s)"
  by (simp add: fields_in_table_def)

lemma kind_of_observe_item [simp]: "kind_of (snd (observe_item raises snap s)) = kind_of s"
  by (rule kind_of_tasks_eq) simp

lemma fields_observe_item: "fields_in_table s \<Longrightarrow> fields_in_table (snd (observe_item raises snap s))"
  by (erule fields_eq) simp_all

lemma fields_observe_step: "fields_in_table s \<Longrightarrow> fields_in_table (observe_task_step t snap raises s)"
proof -
  assume a: "fields_in_table s"
  obtain e s1 where r: "observe_item raises snap s = (e, s1)" by force
  have s1: "fields_in_table s1" using fields_observe_item [OF a, of raises snap] r by simp
  then have "fields_in_table (set_task_state t Finished s1)" by (rule fields_set_task_state)
  with a s1 show ?thesis
    by (cases e) (simp_all add: observe_task_step_def r)
qed

lemma fields_observe_end: "fields_in_table s \<Longrightarrow> fields_in_table (observe_task_end t s)"
  by (simp add: observe_task_end_def fields_set_task_state)

lemma fields_reconnect_shutdown:
  "fields_in_table s \<Longrightarrow> fields_in_table (reconnect_body_shutdown t ok s)"
proof -
  assume a: "fields_in_table s"
  let ?s1 = "case client (coord s) of Some c \<Rightarrow> snd (client_shutdown ok c s) | None \<Rightarrow> s"
  have "tasks ?s1 = tasks s" by (simp split: option.split)
  then have k: "kind_of ?s1 = kind_of s" by (rule kind_of_tasks_eq)
  have "fields_in_table ?s1"
    by (rule fields_eq [OF a k]) (simp_all split: option.split)
  then have "fields_in_table (set_task_state t AwaitingCreate ?s1)" by (rule fields_set_task_state)
  with a show ?thesis by (simp add: reconnect_body_shutdown_def)
qed

lemma fields_reconnect_create:
  "fields_in_table s \<Longrightarrow> fields_in_table (reconnect_body_create t ok s)"
proof -
  assume a: "fields_in_table s"
  let ?s1 = "s\<lparr>clients := clients s @ [Open], coord := (coord s)\<lparr>client := Some (length (clients s))\<rparr>\<rparr>"
  have "fields_in_table ?s1" by (rule fields_eq [OF a]) simp_all
  then have "fields_in_table (start_observing ?s1)" by (rule fields_start_observing)
  then have b: "fields_in_table (set_task_state t Finished (start_observing ?s1))"
    by (rule fields_set_task_state)
  have c: "fields_in_table (set_task_state t Finished s)"
    using a by (rule fields_set_task_state)
  show ?thesis unfolding reconnect_body_create_def
    using a b c by (simp only: split: if_split) simp
qed

lemma fields_timer_fires: "fields_in_table s \<Longrightarrow> fields_in_table (timer_fires s)"
proof (cases "timer_disconnected (coord s)")
  case None
  then show "fields_in_table s \<Longrightarrow> ?thesis" by (simp add: timer_fires_def)
next
  case (Some tm)
  assume a: "fields_in_table s"
  let ?s1 = "s\<lparr>coord := (coord s)\<lparr>timer_disconnected := Some (snd (timer_expire tm))\<rparr>\<rparr>"
  have b: "fields_in_table ?s1" by (rule fields_eq [OF a]) simp_all
  have c: "fields_in_table (reconnect ?s1)" using b by (rule fields_reconnect)
  have "fst (timer_expire tm) = [] \<or> fst (timer_expire tm) = [ReconnectCallback]"
    by (cases "on_expiry tm") (simp add: timer_expire_def)
  then show ?thesis
  proof
    assume "fst (timer_expire tm) = []"
    then show ?thesis using Some b by (simp add: timer_fires_def)
  next
    assume "fst (timer_expire tm) = [ReconnectCallback]"
    then show ?thesis using Some c by (simp add: timer_fires_def)
  qed
qed

lemma fields_step: "fields_in_table s \<Longrightarrow> fields_in_table (step e s)"
  by (cases e)
     (simp_all add: fields_add fields_remove fields_reconnect fields_shutdown fields_observe_step
        fields_observe_end fields_reconnect_shutdown fields_reconnect_create fields_timer_fires)

lemma fields_run: "fields_in_table s \<Longrightarrow> fields_in_table (run evs s)"
  unfolding run_def by (induction evs arbitrary: s) (simp_all add: fields_step)

lemma fields_fresh: "fields_in_table (fresh m h st)"
  by (simp add: fields_in_table_def fresh_def Coordinator_init_def)

lemma fields_task_bound:
  "fields_in_table s \<Longrightarrow> task (coord s) = Some t \<Longrightarrow> t < length (tasks s) \<and> fst (tasks s ! t) = Observe"
  by (auto simp: fields_in_table_def kind_of_def split: if_splits)

lemma fields_reconnect_bound:
  "fields_in_table s \<Longrightarrow> reconnect_task (coord s) = Some t
   \<Longrightarrow> t < length (tasks s) \<and> fst (tasks s ! t) = Reconnect"
  by (auto simp: fields_in_table_def kind_of_def split: if_splits)

section \<open>Removing a listener that is not registered\<close>

text \<open>
  C4, as the spec states it: removing a callback that is not in the registry does not
  raise. On the code it raises: with the listeners 1 and 2 registered, removing the
  callback 3 ends in the ValueError of \<^verbatim>\<open>list.remove\<close>.
\<close>

theorem remove_absent_listener_raises:
  "fst (async_remove_listener 3 two_listeners) = Some ValueError"
  by (simp add: async_remove_listener_def two_listeners_eval)

text \<open>
  C4, amended: removing a callback that is not in the registry raises ValueError and
  leaves the registry, the observation task and everything else unchanged.
\<close>

theorem remove_absent_listener:
  "cb \<notin> set (listeners (coord s)) \<Longrightarrow> async_remove_listener cb s = (Some ValueError, s)"
  by (simp add: async_remove_listener_def)

theorem remove_absent_listener_witness:
  "3 \<notin> set (listeners (coord two_listeners))
   \<and> async_remove_listener 3 two_listeners = (Some ValueError, two_listeners)"
  using remove_absent_listener [of 3 two_listeners] by (simp add: two_listeners_eval)

section \<open>At most one observation task and one reconnect task\<close>

text \<open>
  C6: in every state the Coordinator reaches from its construction, by calls of its
  methods, resumptions of its tasks and expiries of its timer, at most one observation task
  and at most one reconnect task are alive. \<^verbatim>\<open>reconnect\<close> leaves exactly the new
  reconnect task alive, the previous one is cancelled; \<^verbatim>\<open>_start_observing\<close> leaves
  exactly the new observation task alive, the previous one is cancelled.
\<close>

theorem at_most_one_task:
  "length (active_ids Observe (run evs (fresh m h st))) \<le> 1
   \<and> length (active_ids Reconnect (run evs (fresh m h st))) \<le> 1
   \<and> active_ids Reconnect (reconnect (run evs (fresh m h st)))
       = [length (tasks (run evs (fresh m h st)))]
   \<and> active_ids Observe (start_observing (run evs (fresh m h st)))
       = [length (tasks (run evs (fresh m h st)))]
   \<and> (\<forall>t. reconnect_task (coord (run evs (fresh m h st))) = Some t \<longrightarrow>
          \<not> is_active_task Reconnect (reconnect (run evs (fresh m h st))) t)
   \<and> (\<forall>t. task (coord (run evs (fresh m h st))) = Some t \<longrightarrow>
          \<not> is_active_task Observe (start_observing (run evs (fresh m h st))) t)"
proof -
  let ?s = "run evs (fresh m h st)"
  have inv: "single_tasks ?s" by (rule single_run) (rule single_fresh)
  have a: "length (active_ids Observe ?s) \<le> 1" "length (active_ids Reconnect ?s) \<le> 1"
    using single_active_ids [OF inv] by simp_all
  have "single_tasks (reconnect ?s)" using inv by (rule single_reconnect)
  then have "length (active_ids Reconnect (reconnect ?s)) \<le> 1" by (rule single_active_ids)
  moreover have "is_active_task Reconnect (reconnect ?s) (length (tasks ?s))"
    by (simp add: reconnect_active)
  ultimately have b: "active_ids Reconnect (reconnect ?s) = [length (tasks ?s)]"
    by (rule only_active_id)
  have "single_tasks (start_observing ?s)" using inv by (rule single_start_observing)
  then have "length (active_ids Observe (start_observing ?s)) \<le> 1" by (rule single_active_ids)
  moreover have "is_active_task Observe (start_observing ?s) (length (tasks ?s))"
    by (simp add: start_observing_active)
  ultimately have c: "active_ids Observe (start_observing ?s) = [length (tasks ?s)]"
    by (rule only_active_id)
  have fld: "fields_in_table ?s" by (rule fields_run) (rule fields_fresh)
  have d: "\<forall>t. reconnect_task (coord ?s) = Some t \<longrightarrow> \<not> is_active_task Reconnect (reconnect ?s) t"
    using fields_reconnect_bound [OF fld] by (auto simp: reconnect_active)
  have e: "\<forall>t. task (coord ?s) = Some t \<longrightarrow> \<not> is_active_task Observe (start_observing ?s) t"
    using fields_task_bound [OF fld] by (auto simp: start_observing_active)
  from a b c d e show ?thesis by blast
qed

lemma two_reconnects_eval:
  "tasks (run two_reconnects (fresh 3 ''purifier'' example_status)) = [(Observe, Running), (Reconnect, Running)]
   \<and> reconnect_task (coord (run two_reconnects (fresh 3 ''purifier'' example_status))) = Some 1
   \<and> task (coord (run two_reconnects (fresh 3 ''purifier'' example_status))) = Some 0"
  by (simp add: two_reconnects_def run_def model_defs)

theorem at_most_one_task_witness:
  "length (active_ids Observe (run two_reconnects (fresh 3 ''purifier'' example_status))) \<le> 1
   \<and> length (active_ids Reconnect (run two_reconnects (fresh 3 ''purifier'' example_status))) \<le> 1
   \<and> active_ids Reconnect (reconnect (run two_reconnects (fresh 3 ''purifier'' example_status))) = [2]
   \<and> active_ids Observe (start_observing (run two_reconnects (fresh 3 ''purifier'' example_status))) = [2]
   \<and> \<not> is_active_task Reconnect (reconnect (run two_reconnects (fresh 3 ''purifier'' example_status))) 1
   \<and> \<not> is_active_task Observe (start_observing (run two_reconnects (fresh 3 ''purifier'' example_status))) 0"
  using at_most_one_task [of two_reconnects 3 "''purifier''" example_status]
  by (simp add: two_reconnects_eval)

section \<open>The observation loop follows the registry\<close>

lemma observing_coord_upd:
  "task c = task (coord s) \<Longrightarrow> observing (s\<lparr>coord := c\<rparr>) = observing s"
  by (simp add: observing_def split: option.split)

lemma follows_fresh: "loop_follows_registry (fresh m h st)"
  by (simp add: loop_follows_registry_def fresh_def Coordinator_init_def)

lemma add_listeners:
  "listeners (coord (async_add_listener cb s)) = listeners (coord s) @ [cb]"
  by (simp add: async_add_listener_def Let_def start_observing_coord)

lemma add_first_starts:
  "listeners (coord s) = [] \<Longrightarrow>
   task (coord (async_add_listener cb s)) = Some (length (tasks s))
   \<and> is_active_task Observe (async_add_listener cb s) (length (tasks s))"
  by (simp add: async_add_listener_def Let_def start_observing_coord start_observing_active)

lemma follows_add: "loop_follows_registry s \<Longrightarrow> loop_follows_registry (async_add_listener cb s)"
proof (cases "listeners (coord s) = []")
  case True
  then show ?thesis
    using add_first_starts [OF True, of cb]
    by (simp add: loop_follows_registry_def add_listeners observing_def)
next
  case False
  assume "loop_follows_registry s"
  with False have "observing s" by (simp add: loop_follows_registry_def)
  with False show ?thesis
    by (simp add: loop_follows_registry_def async_add_listener_def Let_def observing_coord_upd)
qed

lemma follows_remove:
  "loop_follows_registry s \<Longrightarrow> loop_follows_registry (snd (async_remove_listener cb s))"
  by (auto simp: loop_follows_registry_def remove_coord remove_active observing_def
      split: option.splits)

lemma follows_calls:
  "loop_follows_registry s \<Longrightarrow> loop_follows_registry (run (map call_event calls) s)"
  unfolding run_def
proof (induction calls arbitrary: s)
  case Nil
  then show ?case by simp
next
  case (Cons c calls)
  then show ?case by (cases c) (simp_all add: follows_add follows_remove)
qed

lemma follows_observing:
  "loop_follows_registry s \<Longrightarrow> observing s = (listeners (coord s) \<noteq> [])"
  by (auto simp: loop_follows_registry_def observing_def)

lemma remove_last_cancels:
  "listeners (coord s) = [cb] \<Longrightarrow>
   task (coord (snd (async_remove_listener cb s))) = None
   \<and> (\<forall>t. task (coord s) = Some t \<longrightarrow> \<not> is_active_task Observe (snd (async_remove_listener cb s)) t)"
  by (simp add: remove_coord remove_active)

text \<open>
  C5: after every sequence of \<^verbatim>\<open>async_add_listener\<close> and
  \<^verbatim>\<open>async_remove_listener\<close> calls on a fresh Coordinator, the observation task is alive
  if and only if the registry is not empty. Adding the first listener creates the task
  before the call returns; removing the last listener cancels it and clears the field.
\<close>

theorem observing_iff_listeners:
  "observing (run (map call_event calls) (fresh m h st))
     = (listeners (coord (run (map call_event calls) (fresh m h st))) \<noteq> [])
   \<and> (active_ids Observe (run (map call_event calls) (fresh m h st)) \<noteq> [])
     = (listeners (coord (run (map call_event calls) (fresh m h st))) \<noteq> [])
   \<and> (listeners (coord s) = [] \<longrightarrow>
        task (coord (async_add_listener cb s)) = Some (length (tasks s))
        \<and> is_active_task Observe (async_add_listener cb s) (length (tasks s)))
   \<and> (listeners (coord s) = [cb] \<longrightarrow>
        fst (async_remove_listener cb s) = None
        \<and> task (coord (snd (async_remove_listener cb s))) = None
        \<and> (\<forall>t. task (coord s) = Some t \<longrightarrow>
              \<not> is_active_task Observe (snd (async_remove_listener cb s)) t))"
proof -
  let ?s = "run (map call_event calls) (fresh m h st)"
  have f: "loop_follows_registry ?s" by (rule follows_calls) (rule follows_fresh)
  have a: "observing ?s = (listeners (coord ?s) \<noteq> [])" using f by (rule follows_observing)
  have inv: "single_tasks ?s" by (rule single_run) (rule single_fresh)
  have b: "(active_ids Observe ?s \<noteq> []) = (listeners (coord ?s) \<noteq> [])"
  proof (cases "listeners (coord ?s) = []")
    case True
    then have "task (coord ?s) = None" using f by (simp add: loop_follows_registry_def)
    then have "\<forall>t. \<not> is_active_task Observe ?s t" using inv by (auto simp: single_tasks_def)
    then show ?thesis using True by (simp add: active_ids_empty)
  next
    case False
    then have "observing ?s" using a by simp
    then obtain t where "is_active_task Observe ?s t"
      by (auto simp: observing_def split: option.splits)
    then show ?thesis using False by (auto simp: active_ids_empty)
  qed
  have c: "listeners (coord s) = [] \<longrightarrow>
        task (coord (async_add_listener cb s)) = Some (length (tasks s))
        \<and> is_active_task Observe (async_add_listener cb s) (length (tasks s))"
    using add_first_starts [of s cb] by blast
  have d: "listeners (coord s) = [cb] \<longrightarrow>
        fst (async_remove_listener cb s) = None
        \<and> task (coord (snd (async_remove_listener cb s))) = None
        \<and> (\<forall>t. task (coord s) = Some t \<longrightarrow>
              \<not> is_active_task Observe (snd (async_remove_listener cb s)) t)"
  proof
    assume l: "listeners (coord s) = [cb]"
    have "fst (async_remove_listener cb s) = None"
      using l by (simp add: async_remove_listener_def Let_def split: option.split)
    with remove_last_cancels [OF l] show "fst (async_remove_listener cb s) = None
        \<and> task (coord (snd (async_remove_listener cb s))) = None
        \<and> (\<forall>t. task (coord s) = Some t \<longrightarrow>
              \<not> is_active_task Observe (snd (async_remove_listener cb s)) t)" by blast
  qed
  from a b c d show ?thesis by blast
qed

lemma one_listener_eval:
  "listeners (coord one_listener) = [1] \<and> task (coord one_listener) = Some 0
   \<and> tasks one_listener = [(Observe, Running)]"
  by (simp add: one_listener_def model_defs)

theorem observing_iff_listeners_witness:
  "observing one_listener
   \<and> active_ids Observe one_listener \<noteq> []
   \<and> fst (async_remove_listener 1 one_listener) = None
   \<and> task (coord (snd (async_remove_listener 1 one_listener))) = None
   \<and> \<not> is_active_task Observe (snd (async_remove_listener 1 one_listener)) 0"
proof -
  have r: "run (map call_event [Add 1]) (fresh 3 ''purifier'' example_status) = one_listener"
    by (simp add: run_def one_listener_def)
  note a = observing_iff_listeners [of "[Add 1]" 3 "''purifier''" example_status one_listener 1,
      unfolded r]
  show ?thesis using a one_listener_eval by simp
qed

lemma two_listeners_rest:
  "notified two_listeners = [] \<and> sent two_listeners = [] \<and> client (coord two_listeners) = Some 0
   \<and> status (coord two_listeners) = example_status
   \<and> timer_disconnected (coord two_listeners)
       = Some \<lparr>timer_timeout = 180, on_expiry = ReconnectCallback, running = False, auto_restart = True\<rparr>"
  by (simp add: two_listeners_def model_defs)

lemma notify_all_quiet:
  "\<forall>cb\<in>set cbs. \<not> raises cb \<Longrightarrow>
   notify_all raises cbs s = (None, s\<lparr>notified := notified s @ map (\<lambda>cb. (cb, status (coord s))) cbs\<rparr>)"
  by (induction cbs arbitrary: s) (simp_all add: Let_def)

lemma notify_all_raise:
  "\<forall>c\<in>set pre. \<not> raises c \<Longrightarrow> raises cb \<Longrightarrow>
   notify_all raises (pre @ cb # post) s =
     (Some (CallbackError cb), s\<lparr>notified := notified s @ map (\<lambda>c. (c, status (coord s))) (pre @ [cb])\<rparr>)"
  by (induction pre arbitrary: s) (simp_all add: Let_def)

section \<open>A snapshot is stored, then the listeners are called in order\<close>

lemma three_listeners_eval:
  "listeners (coord three_listeners) = [1, 2, 3] \<and> notified three_listeners = []
   \<and> status (coord three_listeners) = example_status"
  by (simp add: three_listeners_def add_listeners two_listeners_eval async_add_listener_def
      two_listeners_rest)

lemma observe_item_quiet:
  "\<forall>cb\<in>set (listeners (coord s)). \<not> raises cb \<Longrightarrow>
   observe_item raises snap s =
     (None, s\<lparr>coord := (coord s)\<lparr>status := snap\<rparr>,
               notified := notified s @ map (\<lambda>cb. (cb, snap)) (listeners (coord s))\<rparr>)"
  by (simp add: observe_item_def notify_all_quiet)

lemma observe_loop_quiet:
  "\<forall>cb\<in>set (listeners (coord s)). \<not> raises cb \<Longrightarrow>
   async_observe_status raises snaps s =
     (None, s\<lparr>coord := (coord s)\<lparr>status := last (status (coord s) # snaps)\<rparr>,
               notified := notified s
                 @ concat (map (\<lambda>snap. map (\<lambda>cb. (cb, snap)) (listeners (coord s))) snaps)\<rparr>)"
proof (induction snaps arbitrary: s)
  case Nil
  then show ?case by simp
next
  case (Cons snap rest)
  let ?s1 = "s\<lparr>coord := (coord s)\<lparr>status := snap\<rparr>,
               notified := notified s @ map (\<lambda>cb. (cb, snap)) (listeners (coord s))\<rparr>"
  have q: "\<forall>cb\<in>set (listeners (coord ?s1)). \<not> raises cb" using Cons.prems by simp
  have "async_observe_status raises (snap # rest) s = async_observe_status raises rest ?s1"
    using Cons.prems by (simp add: observe_item_quiet)
  also have "\<dots> =
     (None, ?s1\<lparr>coord := (coord ?s1)\<lparr>status := last (status (coord ?s1) # rest)\<rparr>,
               notified := notified ?s1
                 @ concat (map (\<lambda>snap. map (\<lambda>cb. (cb, snap)) (listeners (coord ?s1))) rest)\<rparr>)"
    using q by (rule Cons.IH)
  finally show ?case by simp
qed

text \<open>
  C8, as the spec states it: for every snapshot every registered listener is called. On
  the code, with the listeners 1, 2 and 3 registered and callback 2 raising, a snapshot
  is fanned out to the listeners 1 and 2 only; listener 3 is registered and not called.
\<close>

theorem snapshot_skips_later_listener:
  "listeners (coord three_listeners) = [1, 2, 3]
   \<and> map fst (notified (snd (observe_item second_raises example_snapshot three_listeners))) = [1, 2]"
  by (simp add: observe_item_def three_listeners_eval second_raises_def Let_def)

text \<open>
  C8, amended: for every snapshot the stream delivers, \<^verbatim>\<open>_async_observe_status\<close> first
  replaces \<^verbatim>\<open>self.status\<close> by the snapshot and then calls the registered listeners in
  the order of registration, each reading the new snapshot, up to and including the first
  one that raises. When no callback raises, every registered listener is called once for
  the snapshot before the next snapshot is taken: over the snapshots delivered so far the
  calls are, snapshot by snapshot, the whole registry in order, and the status is the
  last snapshot. A new listener is appended at the end of the registry.
\<close>

theorem snapshot_then_listeners_in_order:
  "status (coord (snd (observe_item raises snap s))) = snap
   \<and> listeners (coord (snd (observe_item raises snap s))) = listeners (coord s)
   \<and> ((\<forall>cb\<in>set (listeners (coord s)). \<not> raises cb) \<longrightarrow>
         observe_item raises snap s =
           (None, s\<lparr>coord := (coord s)\<lparr>status := snap\<rparr>,
                     notified := notified s @ map (\<lambda>cb. (cb, snap)) (listeners (coord s))\<rparr>)
         \<and> async_observe_status raises snaps s =
           (None, s\<lparr>coord := (coord s)\<lparr>status := last (status (coord s) # snaps)\<rparr>,
                     notified := notified s
                       @ concat (map (\<lambda>snap. map (\<lambda>cb. (cb, snap)) (listeners (coord s))) snaps)\<rparr>))
   \<and> (listeners (coord s) = pre @ cb # post \<and> (\<forall>c\<in>set pre. \<not> raises c) \<and> raises cb \<longrightarrow>
         observe_item raises snap s =
           (Some (CallbackError cb),
            s\<lparr>coord := (coord s)\<lparr>status := snap\<rparr>,
              notified := notified s @ map (\<lambda>c. (c, snap)) (pre @ [cb])\<rparr>))
   \<and> listeners (coord (async_add_listener new s)) = listeners (coord s) @ [new]"
proof -
  have a: "status (coord (snd (observe_item raises snap s))) = snap
           \<and> listeners (coord (snd (observe_item raises snap s))) = listeners (coord s)"
    by simp
  have b: "(\<forall>cb\<in>set (listeners (coord s)). \<not> raises cb) \<longrightarrow>
         observe_item raises snap s =
           (None, s\<lparr>coord := (coord s)\<lparr>status := snap\<rparr>,
                     notified := notified s @ map (\<lambda>cb. (cb, snap)) (listeners (coord s))\<rparr>)
         \<and> async_observe_status raises snaps s =
           (None, s\<lparr>coord := (coord s)\<lparr>status := last (status (coord s) # snaps)\<rparr>,
                     notified := notified s
                       @ concat (map (\<lambda>snap. map (\<lambda>cb. (cb, snap)) (listeners (coord s))) snaps)\<rparr>)"
    using observe_item_quiet [of s raises snap] observe_loop_quiet [of s raises snaps] by blast
  have c: "listeners (coord s) = pre @ cb # post \<and> (\<forall>c\<in>set pre. \<not> raises c) \<and> raises cb \<longrightarrow>
         observe_item raises snap s =
           (Some (CallbackError cb),
            s\<lparr>coord := (coord s)\<lparr>status := snap\<rparr>,
              notified := notified s @ map (\<lambda>c. (c, snap)) (pre @ [cb])\<rparr>)"
    by (simp add: observe_item_def notify_all_raise)
  have d: "listeners (coord (async_add_listener new s)) = listeners (coord s) @ [new]"
    by (rule add_listeners)
  from a b c d show ?thesis by blast
qed

theorem snapshot_then_listeners_in_order_witness:
  "async_observe_status none_raises [example_snapshot, example_status] two_listeners =
     (None, two_listeners\<lparr>coord := (coord two_listeners)\<lparr>status := example_status\<rparr>,
              notified := [(1, example_snapshot), (2, example_snapshot),
                           (1, example_status), (2, example_status)]\<rparr>)
   \<and> observe_item none_raises example_snapshot two_listeners =
     (None, two_listeners\<lparr>coord := (coord two_listeners)\<lparr>status := example_snapshot\<rparr>,
              notified := [(1, example_snapshot), (2, example_snapshot)]\<rparr>)
   \<and> observe_item second_raises example_snapshot three_listeners =
     (Some (CallbackError 2),
      three_listeners\<lparr>coord := (coord three_listeners)\<lparr>status := example_snapshot\<rparr>,
        notified := [(1, example_snapshot), (2, example_snapshot)]\<rparr>)
   \<and> status (coord (snd (observe_item second_raises example_snapshot three_listeners)))
       = example_snapshot
   \<and> listeners (coord (async_add_listener 3 two_listeners)) = [1, 2, 3]"
  using snapshot_then_listeners_in_order [of none_raises example_snapshot two_listeners
      "[example_snapshot, example_status]" "[]" 1 "[2]" 3]
    snapshot_then_listeners_in_order [of second_raises example_snapshot three_listeners
      "[]" "[1]" 2 "[3]" 4]
  by (simp add: two_listeners_eval two_listeners_rest three_listeners_eval none_raises_def
      second_raises_def del: async_observe_status.simps)

section \<open>A listener that raises\<close>

text \<open>
  C3, as the spec states it: when a callback raises, the remaining listeners are still
  called and the loop goes on. On the code, with the listeners 1 and 2 registered and
  callback 1 raising, the fan-out ends with the exception of callback 1 and listener 2 is
  not called.
\<close>

theorem listener_fault_stops_fan_out:
  "fst (observe_item first_raises example_snapshot two_listeners) = Some (CallbackError 1)
   \<and> map fst (notified (snd (observe_item first_raises example_snapshot two_listeners))) = [1]"
  by (simp add: observe_item_def two_listeners_eval two_listeners_rest first_raises_def Let_def)

text \<open>
  C3, amended: when a callback raises during the fan-out of a snapshot, the status has
  been replaced, the listeners registered before it and the raising one have been called,
  the listeners after it are not called for that snapshot, the exception leaves the
  observation loop (later snapshots are not processed) and the observation task is
  finished.
\<close>

theorem listener_fault_ends_loop:
  assumes "listeners (coord s) = pre @ cb # post" and "\<forall>c\<in>set pre. \<not> raises c" and "raises cb"
  shows "observe_item raises snap s =
           (Some (CallbackError cb),
            s\<lparr>coord := (coord s)\<lparr>status := snap\<rparr>,
              notified := notified s @ map (\<lambda>c. (c, snap)) (pre @ [cb])\<rparr>)
         \<and> async_observe_status raises (snap # rest) s = observe_item raises snap s
         \<and> (t < length (tasks s) \<and> tasks s ! t = (Observe, Running) \<longrightarrow>
              tasks (observe_task_step t snap raises s) ! t = (Observe, Finished))"
proof -
  have a: "observe_item raises snap s =
           (Some (CallbackError cb),
            s\<lparr>coord := (coord s)\<lparr>status := snap\<rparr>,
              notified := notified s @ map (\<lambda>c. (c, snap)) (pre @ [cb])\<rparr>)"
    using assms by (simp add: observe_item_def notify_all_raise)
  have b: "async_observe_status raises (snap # rest) s = observe_item raises snap s"
    by (simp add: a)
  have c: "t < length (tasks s) \<and> tasks s ! t = (Observe, Running) \<longrightarrow>
              tasks (observe_task_step t snap raises s) ! t = (Observe, Finished)"
    by (simp add: observe_task_step_def a set_task_state_def)
  from a b c show ?thesis by blast
qed

theorem listener_fault_ends_loop_witness:
  "observe_item first_raises example_snapshot two_listeners =
     (Some (CallbackError 1),
      two_listeners\<lparr>coord := (coord two_listeners)\<lparr>status := example_snapshot\<rparr>,
        notified := [(1, example_snapshot)]\<rparr>)
   \<and> async_observe_status first_raises [example_snapshot, example_status] two_listeners
       = observe_item first_raises example_snapshot two_listeners
   \<and> tasks (observe_task_step 0 example_snapshot first_raises two_listeners) ! 0 = (Observe, Finished)"
  using listener_fault_ends_loop [of two_listeners "[]" 1 "[2]" first_raises example_snapshot
      "[example_status]" 0]
  by (simp add: two_listeners_eval two_listeners_rest first_raises_def)

section \<open>The timeout of the session creation\<close>

text \<open>
  C9: \<^verbatim>\<open>async_setup_entry\<close> waits for \<^verbatim>\<open>CoAPClient.create\<close> under a timeout of
  25 time units. A creation that needs more than 25 units, whatever it would end in, or
  that never finishes, makes the setup fail with ConfigEntryNotReady, raised to the
  caller; the setup makes one attempt only and leaves the later ones unused. A creation
  that returns within less than 25 units gives the Coordinator; one that raises within
  less than 25 units fails the setup at once, with ConfigEntryNotReady for a TimeoutError
  of its own and with its own exception otherwise.
\<close>

theorem setup_timeout_not_retried:
  "(25 < d \<longrightarrow> async_setup_entry m entry (Created d # later) = (Inl ConfigEntryNotReady, later)
               \<and> async_setup_entry m entry (CreateRaises d e # later)
                   = (Inl ConfigEntryNotReady, later))
   \<and> async_setup_entry m entry (Hangs # later) = (Inl ConfigEntryNotReady, later)
   \<and> (d < 25 \<longrightarrow> async_setup_entry m entry (Created d # later)
                   = (Inr (fresh m (conf_host entry) (conf_status entry)), later)
               \<and> async_setup_entry m entry (CreateRaises d TimeoutError # later)
                   = (Inl ConfigEntryNotReady, later)
               \<and> (e \<noteq> TimeoutError \<longrightarrow>
                    async_setup_entry m entry (CreateRaises d e # later) = (Inl e, later)))"
  by (simp add: async_setup_entry_def wait_for_def)

theorem setup_timeout_not_retried_witness:
  "async_setup_entry 3 example_entry [Created 30, Created 1] = (Inl ConfigEntryNotReady, [Created 1])
   \<and> async_setup_entry 3 example_entry [CreateRaises 30 ClientError, Created 1]
       = (Inl ConfigEntryNotReady, [Created 1])
   \<and> async_setup_entry 3 example_entry [Hangs, Created 1] = (Inl ConfigEntryNotReady, [Created 1])
   \<and> async_setup_entry 3 example_entry [Created 1, Created 1]
       = (Inr (fresh 3 ''purifier'' example_status), [Created 1])
   \<and> async_setup_entry 3 example_entry [CreateRaises 1 TimeoutError, Created 1]
       = (Inl ConfigEntryNotReady, [Created 1])
   \<and> async_setup_entry 3 example_entry [CreateRaises 1 ClientError, Created 1]
       = (Inl ClientError, [Created 1])"
  using setup_timeout_not_retried [of 30 3 example_entry "[Created 1]" ClientError]
    setup_timeout_not_retried [of 1 3 example_entry "[Created 1]" ClientError]
  by (simp add: example_entry_def)

section \<open>What shutdown changes\<close>

lemma shutdown_clients:
  "clients (snd (shutdown ok s)) =
     (case client (coord s) of
        None \<Rightarrow> clients s
      | Some c \<Rightarrow> if ok then (clients s)[c := Closed] else clients s)"
  by (cases "reconnect_task (coord s)"; cases "timer_disconnected (coord s)"; cases "client (coord s)")
     (simp_all add: shutdown_def Let_def client_shutdown_def)

lemma shutdown_logs:
  "notified (snd (shutdown ok s)) = notified s \<and> sent (snd (shutdown ok s)) = sent s"
  by (cases "reconnect_task (coord s)"; cases "timer_disconnected (coord s)"; cases "client (coord s)")
     (simp_all add: shutdown_def Let_def client_shutdown_def)

lemma shutdown_result:
  "fst (shutdown ok s) = (if ok \<or> client (coord s) = None then None else Some ClientError)"
  by (cases "reconnect_task (coord s)"; cases "timer_disconnected (coord s)"; cases "client (coord s)")
     (simp_all add: shutdown_def Let_def client_shutdown_def)

lemma shutdown_length: "length (tasks (snd (shutdown ok s))) = length (tasks s)"
  by (cases "reconnect_task (coord s)") (simp_all add: shutdown_tasks)

text \<open>
  C10: in every reachable state, \<^verbatim>\<open>shutdown\<close> leaves the task field, the listener
  registry and the live observation tasks as they are, leaves no reconnect task alive,
  cancels the timer, and closes the client when its close returns. Of the fields of the
  Coordinator only the timer changes.
\<close>

theorem shutdown_leaves_observation:
  "task (coord (snd (shutdown ok (run evs (fresh m h st))))) = task (coord (run evs (fresh m h st)))
   \<and> listeners (coord (snd (shutdown ok (run evs (fresh m h st)))))
       = listeners (coord (run evs (fresh m h st)))
   \<and> active_ids Observe (snd (shutdown ok (run evs (fresh m h st))))
       = active_ids Observe (run evs (fresh m h st))
   \<and> active_ids Reconnect (snd (shutdown ok (run evs (fresh m h st)))) = []
   \<and> timer_disconnected (coord (snd (shutdown ok (run evs (fresh m h st)))))
       = map_option timer_cancel (timer_disconnected (coord (run evs (fresh m h st))))
   \<and> (\<forall>c. ok \<and> client (coord (run evs (fresh m h st))) = Some c \<longrightarrow>
          clients (snd (shutdown ok (run evs (fresh m h st))))
            = (clients (run evs (fresh m h st)))[c := Closed])
   \<and> coord (snd (shutdown ok (run evs (fresh m h st))))
       = (coord (run evs (fresh m h st)))
           \<lparr>timer_disconnected :=
              map_option timer_cancel (timer_disconnected (coord (run evs (fresh m h st))))\<rparr>"
proof -
  let ?s = "run evs (fresh m h st)"
  let ?s' = "snd (shutdown ok ?s)"
  have inv: "single_tasks ?s" by (rule single_run) (rule single_fresh)
  have fld: "fields_in_table ?s" by (rule fields_run) (rule fields_fresh)
  have co: "coord ?s' = (coord ?s)\<lparr>timer_disconnected :=
              map_option timer_cancel (timer_disconnected (coord ?s))\<rparr>"
    by (rule shutdown_coord)
  have obs: "is_active_task Observe ?s' t = is_active_task Observe ?s t" for t
  proof (cases "reconnect_task (coord ?s) = Some t")
    case True
    then have "fst (tasks ?s ! t) = Reconnect" using fields_reconnect_bound [OF fld] by simp
    then have "\<not> is_active_task Observe ?s t" by (simp add: is_active_task_def)
    then show ?thesis by (simp add: shutdown_active)
  next
    case False
    then show ?thesis by (simp add: shutdown_active)
  qed
  have a: "active_ids Observe ?s' = active_ids Observe ?s"
    unfolding active_ids_def shutdown_length by (rule filter_cong) (simp_all add: obs)
  have "\<not> is_active_task Reconnect ?s' t" for t
    using inv by (auto simp: shutdown_active single_tasks_def)
  then have b: "active_ids Reconnect ?s' = []" by (simp add: active_ids_empty)
  have c: "\<forall>c. ok \<and> client (coord ?s) = Some c \<longrightarrow> clients ?s' = (clients ?s)[c := Closed]"
    by (simp add: shutdown_clients)
  from co a b c show ?thesis by simp
qed

lemma two_reconnects_rest:
  "listeners (coord (run two_reconnects (fresh 3 ''purifier'' example_status))) = [1]
   \<and> client (coord (run two_reconnects (fresh 3 ''purifier'' example_status))) = Some 0
   \<and> clients (run two_reconnects (fresh 3 ''purifier'' example_status)) = [Open]"
  by (simp add: two_reconnects_def run_def model_defs)

lemma two_reconnects_active:
  "active_ids Observe (run two_reconnects (fresh 3 ''purifier'' example_status)) = [0]"
  by (simp add: active_ids_def is_active_task_def is_alive_def two_reconnects_eval upt_rec)

theorem shutdown_leaves_observation_witness:
  "task (coord (snd (shutdown True (run two_reconnects (fresh 3 ''purifier'' example_status))))) = Some 0
   \<and> listeners (coord (snd (shutdown True (run two_reconnects (fresh 3 ''purifier'' example_status))))) = [1]
   \<and> active_ids Observe (snd (shutdown True (run two_reconnects (fresh 3 ''purifier'' example_status)))) = [0]
   \<and> active_ids Reconnect (snd (shutdown True (run two_reconnects (fresh 3 ''purifier'' example_status)))) = []
   \<and> clients (snd (shutdown True (run two_reconnects (fresh 3 ''purifier'' example_status)))) = [Closed]"
  using shutdown_leaves_observation [of True two_reconnects 3 "''purifier''" example_status]
  by (simp add: two_reconnects_eval two_reconnects_rest two_reconnects_active)

section \<open>A write that fails\<close>

lemmas fan_defs = async_turn_off_def async_turn_on_def async_set_preset_mode_def
  async_set_percentage_def async_oscillate_def set_control_value_def set_control_values_def
  handle_coordinator_update_def store_status_def



lemma write_ok:
  "client (coord s) = Some c \<Longrightarrow> dev data = WriteAccepted \<Longrightarrow>
   set_control_values dev data s = (None, s\<lparr>sent := sent s @ [data]\<rparr>)"
  by (simp add: set_control_values_def)








lemma swing_example:
  "client (coord three_listeners) = Some 0 \<and> KEY_OSCILLATION swing_fan
     = Some (''D0320F'', OnList [Num 17920, Num 17222], Num 0)
   \<and> entity swing_fan = 2 \<and> sent three_listeners = []"
  by (simp add: swing_fan_def three_listeners_def async_add_listener_def two_listeners_eval
      two_listeners_rest)




section \<open>A write that succeeds\<close>

lemma dict_update_last:
  "k \<notin> fst ` set p \<Longrightarrow> dict_update m p k = m k"
  by (induction p arbitrary: m) auto

lemma dict_update_holds:
  "distinct (map fst p) \<Longrightarrow> (k, v) \<in> set p \<Longrightarrow> dict_update m p k = Some v"
proof (induction p arbitrary: m)
  case Nil
  then show ?case by simp
next
  case (Cons a p)
  obtain k' v' where a: "a = (k', v')" by (cases a)
  show ?case
  proof (cases "(k, v) = a")
    case True
    then have "fst a = k" by auto
    moreover have "fst a \<notin> set (map fst p)" using Cons.prems(1) by simp
    ultimately have "k \<notin> fst ` set p" by simp
    then show ?thesis using True a by (simp add: dict_update_last)
  next
    case False
    then show ?thesis using Cons a by auto
  qed
qed

text \<open>
  C2, as the spec states it: after a successful write every registered listener has been
  called once. On the code, with the listeners 1 and 2 registered, the entity of listener 1
  turns the fan off: the write succeeds and only the handler of that entity is called;
  listener 2 is not.
\<close>

theorem write_skips_other_listeners:
  "fst (async_turn_off device_accepts example_fan two_listeners) = None
   \<and> listeners (coord two_listeners) = [1, 2]
   \<and> map fst (notified (snd (async_turn_off device_accepts example_fan two_listeners))) = [1]"
  by (simp add: fan_defs two_listeners_eval two_listeners_rest device_accepts_def example_fan_def)

text \<open>
  \<^verbatim>\<open>async_set_percentage\<close> sends the pattern of the speed and calls the handler, and
  does not store the pattern in the status, unlike \<^verbatim>\<open>async_set_preset_mode\<close>: after
  the mode N has been written, the cached mode is still P.
\<close>

lemma set_percentage_keeps_status:
  "fst (async_set_percentage device_accepts example_to_item example_fan 50 two_listeners) = None
   \<and> sent (snd (async_set_percentage device_accepts example_to_item example_fan 50 two_listeners))
       = [[(''mode'', Str ''N'')]]
   \<and> status (coord (snd (async_set_percentage device_accepts example_to_item example_fan 50 two_listeners)))
        ''mode'' = Some (Str ''P'')"
  by (simp add: fan_defs two_listeners_eval two_listeners_rest device_accepts_def example_fan_def
      example_to_item_def example_status_def)

text \<open>
  C2, amended: for the write commands as \<^verbatim>\<open>PhilipsGenericCoAPFanBase\<close> defines them
  (not as \<^verbatim>\<open>PhilipsAC1214\<close> overrides them), when the Device Client accepts the write:
  turning off, turning on (also with a non-empty preset mode given, which is then set),
  setting a known preset mode and oscillating (with the on value given as a value or as the first
  of a list) store the written value for each written key in the cached status and call
  the update handler of the calling entity exactly once, with the updated status; no
  other listener of the registry is called.
\<close>

theorem write_updates_snapshot:
  assumes "\<forall>data. dev data = WriteAccepted" and "client (coord s) = Some c"
  shows "async_turn_off dev f s =
           (None, s\<lparr>coord := (coord s)\<lparr>status := (status (coord s))(KEY_PHILIPS_POWER f \<mapsto> STATE_POWER_OFF f)\<rparr>,
                     notified := notified s @ [(entity f, (status (coord s))(KEY_PHILIPS_POWER f \<mapsto> STATE_POWER_OFF f))],
                     sent := sent s @ [[(KEY_PHILIPS_POWER f, STATE_POWER_OFF f)]]\<rparr>)
         \<and> ((pm = None \<or> pm = Some []) \<and> (pc = None \<or> pc = Some 0) \<longrightarrow>
              async_turn_on dev to_item f pc pm s =
                (None, s\<lparr>coord := (coord s)\<lparr>status := (status (coord s))(KEY_PHILIPS_POWER f \<mapsto> STATE_POWER_ON f)\<rparr>,
                          notified := notified s @ [(entity f, (status (coord s))(KEY_PHILIPS_POWER f \<mapsto> STATE_POWER_ON f))],
                          sent := sent s @ [[(KEY_PHILIPS_POWER f, STATE_POWER_ON f)]]\<rparr>))
         \<and> (map_of (available_preset_modes f) name = Some p \<and> p \<noteq> [] \<longrightarrow>
              async_set_preset_mode dev f name s =
                (None, s\<lparr>coord := (coord s)\<lparr>status := dict_update (status (coord s)) p\<rparr>,
                          notified := notified s @ [(entity f, dict_update (status (coord s)) p)],
                          sent := sent s @ [p]\<rparr>)
              \<and> (name \<noteq> [] \<longrightarrow>
                   async_turn_on dev to_item f pc (Some name) s = async_set_preset_mode dev f name s))
         \<and> (KEY_OSCILLATION f = Some (k, on, off) \<and> on_value on = Some v \<longrightarrow>
              async_oscillate dev f b s =
                (None, s\<lparr>coord := (coord s)\<lparr>status := (status (coord s))(k \<mapsto> (if b then v else off))\<rparr>,
                          notified := notified s @ [(entity f, (status (coord s))(k \<mapsto> (if b then v else off)))],
                          sent := sent s @ [[(k, if b then v else off)]]\<rparr>))
         \<and> (distinct (map fst p) \<and> (key, val) \<in> set p \<longrightarrow> dict_update (status (coord s)) p key = Some val)"
proof -
  have w: "set_control_values dev data s = (None, s\<lparr>sent := sent s @ [data]\<rparr>)" for data
    using assms by (simp add: write_ok)
  have a: "async_turn_off dev f s =
           (None, s\<lparr>coord := (coord s)\<lparr>status := (status (coord s))(KEY_PHILIPS_POWER f \<mapsto> STATE_POWER_OFF f)\<rparr>,
                     notified := notified s @ [(entity f, (status (coord s))(KEY_PHILIPS_POWER f \<mapsto> STATE_POWER_OFF f))],
                     sent := sent s @ [[(KEY_PHILIPS_POWER f, STATE_POWER_OFF f)]]\<rparr>)"
    by (simp add: async_turn_off_def set_control_value_def w handle_coordinator_update_def store_status_def)
  have b: "(pm = None \<or> pm = Some []) \<and> (pc = None \<or> pc = Some 0) \<longrightarrow>
              async_turn_on dev to_item f pc pm s =
                (None, s\<lparr>coord := (coord s)\<lparr>status := (status (coord s))(KEY_PHILIPS_POWER f \<mapsto> STATE_POWER_ON f)\<rparr>,
                          notified := notified s @ [(entity f, (status (coord s))(KEY_PHILIPS_POWER f \<mapsto> STATE_POWER_ON f))],
                          sent := sent s @ [[(KEY_PHILIPS_POWER f, STATE_POWER_ON f)]]\<rparr>)"
    by (auto simp: async_turn_on_def set_control_value_def w handle_coordinator_update_def store_status_def)
  have c: "map_of (available_preset_modes f) name = Some p \<and> p \<noteq> [] \<longrightarrow>
              async_set_preset_mode dev f name s =
                (None, s\<lparr>coord := (coord s)\<lparr>status := dict_update (status (coord s)) p\<rparr>,
                          notified := notified s @ [(entity f, dict_update (status (coord s)) p)],
                          sent := sent s @ [p]\<rparr>)
              \<and> (name \<noteq> [] \<longrightarrow>
                   async_turn_on dev to_item f pc (Some name) s = async_set_preset_mode dev f name s)"
  proof
    assume h: "map_of (available_preset_modes f) name = Some p \<and> p \<noteq> []"
    have c1: "async_set_preset_mode dev f name s =
                (None, s\<lparr>coord := (coord s)\<lparr>status := dict_update (status (coord s)) p\<rparr>,
                          notified := notified s @ [(entity f, dict_update (status (coord s)) p)],
                          sent := sent s @ [p]\<rparr>)"
      using h by (simp add: async_set_preset_mode_def w handle_coordinator_update_def store_status_def)
    show "async_set_preset_mode dev f name s =
                (None, s\<lparr>coord := (coord s)\<lparr>status := dict_update (status (coord s)) p\<rparr>,
                          notified := notified s @ [(entity f, dict_update (status (coord s)) p)],
                          sent := sent s @ [p]\<rparr>)
              \<and> (name \<noteq> [] \<longrightarrow>
                   async_turn_on dev to_item f pc (Some name) s = async_set_preset_mode dev f name s)"
      using c1 by (simp add: async_turn_on_def)
  qed
  have d: "KEY_OSCILLATION f = Some (k, on, off) \<and> on_value on = Some v \<longrightarrow>
              async_oscillate dev f b s =
                (None, s\<lparr>coord := (coord s)\<lparr>status := (status (coord s))(k \<mapsto> (if b then v else off))\<rparr>,
                          notified := notified s @ [(entity f, (status (coord s))(k \<mapsto> (if b then v else off)))],
                          sent := sent s @ [[(k, if b then v else off)]]\<rparr>)"
    by (simp add: async_oscillate_def set_control_value_def w handle_coordinator_update_def store_status_def)
  have e: "distinct (map fst p) \<and> (key, val) \<in> set p \<longrightarrow> dict_update (status (coord s)) p key = Some val"
    by (simp add: dict_update_holds)
  from a b c d e show ?thesis by blast
qed

theorem write_updates_snapshot_witness:
  "fst (async_turn_off device_accepts example_fan two_listeners) = None
   \<and> status (coord (snd (async_turn_off device_accepts example_fan two_listeners))) ''pwr''
       = Some (Str ''0'')
   \<and> map fst (notified (snd (async_turn_off device_accepts example_fan two_listeners))) = [1]
   \<and> sent (snd (async_turn_on device_accepts example_to_item example_fan (Some 0) None two_listeners))
       = [[(''pwr'', Str ''1'')]]
   \<and> map fst (notified (snd (async_turn_on device_accepts example_to_item example_fan (Some 0) None
         two_listeners))) = [1]
   \<and> status (coord (snd (async_set_preset_mode device_accepts example_fan ''allergen'' two_listeners)))
         ''mode'' = Some (Str ''A'')
   \<and> async_turn_on device_accepts example_to_item example_fan (Some 0) (Some ''allergen'') two_listeners
       = async_set_preset_mode device_accepts example_fan ''allergen'' two_listeners
   \<and> status (coord (snd (async_oscillate device_accepts swing_fan True three_listeners))) ''D0320F''
       = Some (Num 17920)
   \<and> map fst (notified (snd (async_oscillate device_accepts swing_fan True three_listeners))) = [2]
   \<and> status (coord (snd (async_oscillate device_accepts swing_fan False three_listeners))) ''D0320F''
       = Some (Num 0)
   \<and> dict_update (status (coord two_listeners)) [(''mode'', Str ''A'')] ''mode'' = Some (Str ''A'')"
proof -
  have ac: "\<forall>data. device_accepts data = WriteAccepted" by (simp add: device_accepts_def)
  have c2: "client (coord two_listeners) = Some 0" by (simp add: two_listeners_rest)
  have c3: "client (coord three_listeners) = Some 0" by (simp add: swing_example)
  note w1 = write_updates_snapshot [OF ac c2, where f = example_fan and pm = None and pc = "Some 0"
      and to_item = example_to_item and name = "''allergen''" and p = "[(''mode'', Str ''A'')]"
      and k = "''none''" and on = "OnValue (Num 1)" and off = "Num 0" and v = "Num 1" and b = True
      and key = "''mode''" and val = "Str ''A''"]
  note w2 = write_updates_snapshot [OF ac c3, where f = swing_fan and pm = None and pc = None
      and to_item = example_to_item and name = "''allergen''" and p = "[]"
      and k = "''D0320F''" and on = "OnList [Num 17920, Num 17222]" and off = "Num 0"
      and v = "Num 17920" and b = True and key = "''mode''" and val = "Str ''A''"]
  note w3 = write_updates_snapshot [OF ac c3, where f = swing_fan and pm = None and pc = None
      and to_item = example_to_item and name = "''allergen''" and p = "[]"
      and k = "''D0320F''" and on = "OnList [Num 17920, Num 17222]" and off = "Num 0"
      and v = "Num 17920" and b = False and key = "''mode''" and val = "Str ''A''"]
  have e1: "map_of (available_preset_modes example_fan) ''allergen'' = Some [(''mode'', Str ''A'')]
            \<and> KEY_PHILIPS_POWER example_fan = ''pwr'' \<and> STATE_POWER_OFF example_fan = Str ''0''
            \<and> STATE_POWER_ON example_fan = Str ''1'' \<and> entity example_fan = 1"
    by (simp add: example_fan_def)
  have e3: "KEY_OSCILLATION swing_fan = Some (''D0320F'', OnList [Num 17920, Num 17222], Num 0)
            \<and> on_value (OnList [Num 17920, Num 17222]) = Some (Num 17920) \<and> entity swing_fan = 2"
    by (simp add: swing_example)
  have n3: "notified three_listeners = []" by (simp add: three_listeners_eval)
  from w1 e1 have a:
    "fst (async_turn_off device_accepts example_fan two_listeners) = None
     \<and> status (coord (snd (async_turn_off device_accepts example_fan two_listeners))) ''pwr''
         = Some (Str ''0'')
     \<and> map fst (notified (snd (async_turn_off device_accepts example_fan two_listeners))) = [1]
     \<and> sent (snd (async_turn_on device_accepts example_to_item example_fan (Some 0) None two_listeners))
         = [[(''pwr'', Str ''1'')]]
     \<and> map fst (notified (snd (async_turn_on device_accepts example_to_item example_fan (Some 0) None
           two_listeners))) = [1]
     \<and> status (coord (snd (async_set_preset_mode device_accepts example_fan ''allergen'' two_listeners)))
           ''mode'' = Some (Str ''A'')
     \<and> async_turn_on device_accepts example_to_item example_fan (Some 0) (Some ''allergen'') two_listeners
         = async_set_preset_mode device_accepts example_fan ''allergen'' two_listeners
     \<and> dict_update (status (coord two_listeners)) [(''mode'', Str ''A'')] ''mode'' = Some (Str ''A'')"
    by (simp add: two_listeners_rest)
  from w2 e3 n3 have b:
    "status (coord (snd (async_oscillate device_accepts swing_fan True three_listeners))) ''D0320F''
       = Some (Num 17920)
     \<and> map fst (notified (snd (async_oscillate device_accepts swing_fan True three_listeners))) = [2]"
    by simp
  from w3 e3 have c:
    "status (coord (snd (async_oscillate device_accepts swing_fan False three_listeners))) ''D0320F''
       = Some (Num 0)"
    by simp
  from a b c show ?thesis by blast
qed

section \<open>The watchdog timer and the observation loop\<close>

lemma add_timer:
  "timer_disconnected (coord (async_add_listener cb s)) = timer_disconnected (coord s)"
  by (simp add: async_add_listener_def Let_def start_observing_coord)

lemma observe_step_timer:
  "timer_disconnected (coord (observe_task_step t snap raises s)) = timer_disconnected (coord s)"
proof -
  obtain e s1 where r: "observe_item raises snap s = (e, s1)" by force
  have "coord s1 = (coord s)\<lparr>status := snap\<rparr>" using observe_item_frame(1) [of raises snap s] r by simp
  then show ?thesis by (cases e) (simp_all add: observe_task_step_def r)
qed

lemma reconnect_shutdown_timer:
  "timer_disconnected (coord (reconnect_body_shutdown t ok s)) = timer_disconnected (coord s)"
  by (simp add: reconnect_body_shutdown_def split: option.split)

lemma reconnect_create_timer:
  "timer_disconnected (coord (reconnect_body_create t ok s)) = timer_disconnected (coord s)"
  by (simp add: reconnect_body_create_def start_observing_coord)

lemma timer_fires_stopped:
  "timer_disconnected (coord s) = Some tm \<Longrightarrow> \<not> running tm \<Longrightarrow> timer_fires s = s"
  by (simp add: timer_fires_def timer_expire_def)

lemma timer_fires_running:
  "timer_disconnected (coord s) = Some tm \<Longrightarrow> running tm \<Longrightarrow>
   timer_fires s =
     reconnect (s\<lparr>coord := (coord s)\<lparr>timer_disconnected := Some (tm\<lparr>running := auto_restart tm\<rparr>)\<rparr>\<rparr>)"
  by (cases "on_expiry tm") (simp add: timer_fires_def timer_expire_def)

lemma never_armed_step: "never_armed s \<Longrightarrow> never_armed (step e s)"
proof (cases e)
  case TimerExpires
  assume a: "never_armed s"
  then obtain tm where "timer_disconnected (coord s) = Some tm" "\<not> running tm"
    by (auto simp: never_armed_def)
  then have "timer_fires s = s" by (rule timer_fires_stopped)
  with a TimerExpires show ?thesis by simp
next
  case (CallShutdown ok)
  assume "never_armed s"
  then show ?thesis using CallShutdown
    by (auto simp: never_armed_def shutdown_coord timer_cancel_def)
qed (simp_all add: never_armed_def add_timer remove_coord reconnect_coord observe_step_timer
      observe_task_end_def reconnect_shutdown_timer reconnect_create_timer)

lemma never_armed_run: "never_armed s \<Longrightarrow> never_armed (run evs s)"
  unfolding run_def by (induction evs arbitrary: s) (simp_all add: never_armed_step)

lemma never_armed_fresh: "never_armed (fresh m h st)"
  by (simp add: never_armed_def fresh_def Coordinator_init_def Timer_init_def)

text \<open>
  C1, as the spec states it: every snapshot resets the timer. On the code the timer is
  stopped after a snapshot has been received and fanned out, where a reset would have left
  it counting down.
\<close>

theorem snapshot_does_not_reset_timer:
  "map_option running
     (timer_disconnected (coord (snd (observe_item none_raises example_snapshot two_listeners))))
     = Some False
   \<and> map_option running (map_option timer_reset (timer_disconnected (coord two_listeners)))
     = Some True"
  by (simp add: two_listeners_rest timer_reset_def)

text \<open>
  C1, amended: receiving a snapshot and starting the observation leave the timer as it
  is. The timer is created stopped, with the timeout 60 times the missed package count,
  auto-restart on and \<^verbatim>\<open>reconnect\<close> as its callback, and it is stopped in every
  reachable state. Where a timer is counting down and expires without a reset, its
  callback runs \<^verbatim>\<open>reconnect\<close> exactly once: one reconnect task is created.
\<close>

theorem watchdog_untouched:
  "timer_disconnected (coord (snd (observe_item raises snap s))) = timer_disconnected (coord s)
   \<and> timer_disconnected (coord (start_observing s)) = timer_disconnected (coord s)
   \<and> timer_disconnected (coord (fresh m h st))
       = Some \<lparr>timer_timeout = 60 * m, on_expiry = ReconnectCallback, running = False,
               auto_restart = True\<rparr>
   \<and> map_option running (timer_disconnected (coord (run evs (fresh m h st)))) = Some False
   \<and> (timer_disconnected (coord s) = Some tm \<and> running tm \<longrightarrow>
        timer_fires s =
          reconnect (s\<lparr>coord := (coord s)\<lparr>timer_disconnected := Some (tm\<lparr>running := auto_restart tm\<rparr>)\<rparr>\<rparr>)
        \<and> length (tasks (timer_fires s)) = Suc (length (tasks s)))"
proof -
  have a: "timer_disconnected (coord (snd (observe_item raises snap s))) = timer_disconnected (coord s)"
    by simp
  have b: "timer_disconnected (coord (start_observing s)) = timer_disconnected (coord s)"
    by (simp add: start_observing_coord)
  have c: "timer_disconnected (coord (fresh m h st))
       = Some \<lparr>timer_timeout = 60 * m, on_expiry = ReconnectCallback, running = False,
               auto_restart = True\<rparr>"
    by (simp add: fresh_def Coordinator_init_def Timer_init_def)
  have "never_armed (run evs (fresh m h st))" by (rule never_armed_run) (rule never_armed_fresh)
  then have d: "map_option running (timer_disconnected (coord (run evs (fresh m h st)))) = Some False"
    by (simp add: never_armed_def)
  have e: "timer_disconnected (coord s) = Some tm \<and> running tm \<longrightarrow>
        timer_fires s =
          reconnect (s\<lparr>coord := (coord s)\<lparr>timer_disconnected := Some (tm\<lparr>running := auto_restart tm\<rparr>)\<rparr>\<rparr>)
        \<and> length (tasks (timer_fires s)) = Suc (length (tasks s))"
    by (simp add: timer_fires_running reconnect_length)
  from a b c d e show ?thesis by blast
qed

lemma armed_example_eval:
  "timer_disconnected (coord armed_example)
     = Some \<lparr>timer_timeout = 180, on_expiry = ReconnectCallback, running = True, auto_restart = True\<rparr>
   \<and> tasks armed_example = [(Observe, Running)]"
  by (simp add: armed_example_def two_listeners_rest two_listeners_eval timer_reset_def)

theorem watchdog_untouched_witness:
  "timer_disconnected (coord (snd (observe_item none_raises example_snapshot armed_example)))
     = timer_disconnected (coord armed_example)
   \<and> map_option running (timer_disconnected (coord (run two_reconnects (fresh 3 ''purifier'' example_status))))
       = Some False
   \<and> length (tasks (timer_fires armed_example)) = 2"
proof -
  note w = watchdog_untouched [of none_raises example_snapshot armed_example 3 "''purifier''"
      example_status two_reconnects
      "\<lparr>timer_timeout = 180, on_expiry = ReconnectCallback, running = True, auto_restart = True\<rparr>"]
  have tm: "timer_disconnected (coord armed_example)
       = Some \<lparr>timer_timeout = 180, on_expiry = ReconnectCallback, running = True, auto_restart = True\<rparr>
     \<and> running \<lparr>timer_timeout = 180, on_expiry = ReconnectCallback, running = True, auto_restart = True\<rparr>"
    by (simp add: armed_example_eval)
  from w tm have "length (tasks (timer_fires armed_example)) = Suc (length (tasks armed_example))"
    by blast
  then have a: "length (tasks (timer_fires armed_example)) = 2" by (simp add: armed_example_eval)
  from w have b: "timer_disconnected (coord (snd (observe_item none_raises example_snapshot armed_example)))
     = timer_disconnected (coord armed_example)" by blast
  from w have c: "map_option running
      (timer_disconnected (coord (run two_reconnects (fresh 3 ''purifier'' example_status)))) = Some False"
    by blast
  from a b c show ?thesis by blast
qed

end
